theory Spec2Isabelle
  imports Main
begin

section \<open>Simple Banking System: the card number scheme and the ledger\<close>

text \<open>
  A shallow embedding of \<^verbatim>\<open>task/banking/banking.py\<close>. Python strings are modelled as
  \<open>string\<close> (characters with code points below 256; among those, Python's \<^verbatim>\<open>int\<close>
  accepts a one-character string exactly when the character is one of 0 to 9), Python
  integers as \<open>int\<close>, the \<^verbatim>\<open>card\<close> table as the list of its rows in rowid order, and
  every exception the code can raise as a value. The storage engine holds 64-bit
  integers: an amount outside that range is refused when it is bound to a statement, and
  a sum that leaves the range is stored as a floating-point value. The model follows a
  run up to the point where such a value is stored, and notes that it was.
\<close>

subsection \<open>Exceptions\<close>

datatype error = ValueError | IndexError | TypeError | KeyError | OverflowError

text \<open>\<^verbatim>\<open>randint(a, b)\<close> returns any integer from \<open>a\<close> to \<open>b\<close>, both included. The
  draws are inputs of the model; this is the set they come from.\<close>

definition randint :: "int \<Rightarrow> int \<Rightarrow> int set" where
  "randint a b = {a..b}"

subsection \<open>Python's conversions between integers and strings\<close>

definition is_digit :: "char \<Rightarrow> bool" where
  "is_digit c = (48 \<le> (of_char c :: nat) \<and> (of_char c :: nat) \<le> 57)"

text \<open>\<^verbatim>\<open>int(digit)\<close> for a one-character string.\<close>

definition py_int :: "char \<Rightarrow> error + int" where
  "py_int c = (if is_digit c then Inr (int (of_char c) - 48) else Inl ValueError)"

definition digit_char :: "nat \<Rightarrow> char" where
  "digit_char d = char_of (48 + d)"

fun dec :: "nat \<Rightarrow> string" where
  "dec n = (if n < 10 then [digit_char n] else dec (n div 10) @ [digit_char (n mod 10)])"

declare dec.simps [simp del]

text \<open>\<^verbatim>\<open>str(n)\<close> for an integer.\<close>

definition str :: "int \<Rightarrow> string" where
  "str n = (if n < 0 then CHR ''-'' # dec (nat (- n)) else dec (nat n))"

text \<open>\<^verbatim>\<open>f'{n:0wd}'\<close>: the sign first, then zeros up to the width \<open>w\<close>, then the digits.\<close>

definition format_0d :: "nat \<Rightarrow> int \<Rightarrow> string" where
  "format_0d w n =
     (if n < 0
      then CHR ''-'' # replicate (w - 1 - length (dec (nat (- n)))) CHR ''0'' @ dec (nat (- n))
      else replicate (w - length (dec (nat n))) CHR ''0'' @ dec (nat n))"

subsection \<open>The check digit\<close>

text \<open>\<^verbatim>\<open>[int(digit) for digit in account_number]\<close>: the first character that is not a
  digit raises.\<close>

fun int_digits :: "string \<Rightarrow> error + int list" where
  "int_digits [] = Inr []"
| "int_digits (c # cs) =
     (case py_int c of
        Inl e \<Rightarrow> Inl e
      | Inr d \<Rightarrow> (case int_digits cs of Inl e \<Rightarrow> Inl e | Inr ds \<Rightarrow> Inr (d # ds)))"

text \<open>The body of the loop: \<^verbatim>\<open>digits[i] = digits[i] * 2\<close>, then
  \<^verbatim>\<open>if digits[i] > 9: digits[i] -= 9\<close>.\<close>

definition luhn_body :: "int list \<Rightarrow> nat \<Rightarrow> int list" where
  "luhn_body digits i =
     (let digits1 = digits[i := digits ! i * 2]
      in if digits1 ! i > 9 then digits1[i := digits1 ! i - 9] else digits1)"

text \<open>\<^verbatim>\<open>for i in range(len(digits) - 1, -1, -2)\<close>: the index starts at the last position,
  goes down by two and stops before \<open>-1\<close>. It never leaves the list.\<close>

function luhn_loop :: "int list \<Rightarrow> int \<Rightarrow> int list" where
  "luhn_loop digits i = (if i > -1 then luhn_loop (luhn_body digits (nat i)) (i - 2) else digits)"
  by pat_completeness auto
termination
  by (relation "measure (\<lambda>(digits, i). nat (i + 1))") auto

declare luhn_loop.simps [simp del]

definition calculate_luhn_checksum :: "string \<Rightarrow> error + int" where
  "calculate_luhn_checksum account_number =
     (case int_digits account_number of
        Inl e \<Rightarrow> Inl e
      | Inr digits \<Rightarrow>
          (let digits1 = luhn_loop digits (int (length digits) - 1);
               total_sum = sum_list digits1;
               checksum = (10 - total_sum mod 10) mod 10
           in Inr checksum))"

text \<open>\<^verbatim>\<open>number[:-1]\<close> is \<open>butlast\<close> (empty for the empty string); \<^verbatim>\<open>number[-1]\<close> raises
  IndexError on the empty string, after the check digit has been computed. The result of
  \<^verbatim>\<open>number[-1]\<close> is a one-character string.\<close>

definition is_valid_card_number :: "string \<Rightarrow> error + bool" where
  "is_valid_card_number number =
     (let card_number_without_checksum = butlast number
      in case calculate_luhn_checksum card_number_without_checksum of
           Inl e \<Rightarrow> Inl e
         | Inr checksum \<Rightarrow>
             (if number = [] then Inl IndexError
              else Inr (str checksum = [last number])))"

subsection \<open>Generating a card number and a code\<close>

text \<open>\<^verbatim>\<open>__create_card\<close>, with the result \<open>r\<close> of \<^verbatim>\<open>randint(1, 999999999)\<close> as an argument.\<close>

definition create_card :: "int \<Rightarrow> error + string" where
  "create_card r =
     (let inn = ''400000'';
          account_number = inn @ format_0d 9 r
      in case calculate_luhn_checksum account_number of
           Inl e \<Rightarrow> Inl e
         | Inr checksum \<Rightarrow> Inr (account_number @ str checksum))"

definition create_card_outcomes :: "(error + string) set" where
  "create_card_outcomes = create_card ` randint 1 999999999"

text \<open>\<^verbatim>\<open>__create_code\<close>, with the result \<open>r\<close> of \<^verbatim>\<open>randint(1, 9999)\<close> as an argument.\<close>

definition create_code :: "int \<Rightarrow> string" where
  "create_code r = format_0d 4 r"

subsection \<open>The card table and the Card object\<close>

text \<open>A row of \<^verbatim>\<open>card (id INTEGER PRIMARY KEY, number TEXT, pin TEXT, balance INTEGER)\<close>.
  The table is the list of its rows in rowid order, the order in which a scan returns them.\<close>

record row =
  row_id :: int
  row_number :: string
  row_pin :: string
  row_balance :: int

text \<open>The fields of a \<^verbatim>\<open>Card\<close> object; \<^verbatim>\<open>connect\<close> and \<^verbatim>\<open>cursor\<close> are the table, which
  every operation takes and returns.\<close>

record Card =
  number :: string
  code :: string
  balance :: int

text \<open>A new row gets the largest rowid in use plus one, 1 in an empty table (what the
  engine does once the largest 64-bit rowid is in use is not modelled).\<close>

definition next_id :: "row list \<Rightarrow> int" where
  "next_id db = fold max (map row_id db) 0 + 1"

definition save_to_db :: "row list \<Rightarrow> Card \<Rightarrow> row list" where
  "save_to_db db self =
     db @ [\<lparr>row_id = next_id db, row_number = number self, row_pin = code self,
            row_balance = balance self\<rparr>]"

text \<open>\<^verbatim>\<open>SELECT ... WHERE number = ?\<close> and \<^verbatim>\<open>SELECT ... WHERE number = ? AND pin = ?\<close>,
  each followed by \<^verbatim>\<open>fetchone()\<close>: the first matching row, if any.\<close>

definition select_by_number :: "row list \<Rightarrow> string \<Rightarrow> row option" where
  "select_by_number db num = find (\<lambda>r. row_number r = num) db"

definition select_by_number_pin :: "row list \<Rightarrow> string \<Rightarrow> string \<Rightarrow> row option" where
  "select_by_number_pin db num p = find (\<lambda>r. row_number r = num \<and> row_pin r = p) db"

text \<open>\<^verbatim>\<open>Card.__init__\<close> without a number: the card is generated and saved.\<close>

definition init_card :: "row list \<Rightarrow> int \<Rightarrow> int \<Rightarrow> error + (row list \<times> Card)" where
  "init_card db r1 r2 =
     (case create_card r1 of
        Inl e \<Rightarrow> Inl e
      | Inr n \<Rightarrow>
          (let self = \<lparr>number = n, code = create_code r2, balance = 0\<rparr>
           in Inr (save_to_db db self, self)))"

text \<open>\<^verbatim>\<open>check_card\<close>: \<^verbatim>\<open>if code\<close> is false for \<^verbatim>\<open>None\<close> and for the empty string, and the
  lookup is then by number alone.\<close>

definition check_card :: "row list \<Rightarrow> string \<Rightarrow> string option \<Rightarrow> Card option" where
  "check_card db num cod =
     (let result = (case cod of
                      Some (c # cs) \<Rightarrow> select_by_number_pin db num (c # cs)
                    | _ \<Rightarrow> select_by_number db num)
      in case result of
           Some r \<Rightarrow> Some \<lparr>number = row_number r, code = row_pin r, balance = row_balance r\<rparr>
         | None \<Rightarrow> None)"

text \<open>The integers the storage engine holds, and a Python integer may be bound to a
  statement only when it is one of them.\<close>

definition int64 :: "int \<Rightarrow> bool" where
  "int64 n = (- (2 ^ 63) \<le> n \<and> n \<le> 2 ^ 63 - 1)"

text \<open>\<^verbatim>\<open>SET balance = balance + ?\<close> on the rows with number \<open>num\<close>: some sum leaves the
  64-bit integers. The engine then stores that sum as a floating-point value.\<close>

definition overflows :: "row list \<Rightarrow> string \<Rightarrow> int \<Rightarrow> bool" where
  "overflows db num money =
     list_ex (\<lambda>r. row_number r = num \<and> \<not> int64 (row_balance r + money)) db"

text \<open>What keeps \<^verbatim>\<open>update_balance\<close> from returning an integer balance: an exception, or a
  floating-point value stored in the table. The second is not an exception, the code goes
  on with it; the model does not.\<close>

datatype failure = Raised error | Real_stored

text \<open>\<^verbatim>\<open>update_balance\<close>: binding \<open>money\<close> raises OverflowError when it is not a 64-bit
  integer, before anything is changed; the UPDATE adds \<open>money\<close> to every row with the
  card's number; the SELECT reads the balance back; \<^verbatim>\<open>result[0]\<close> raises TypeError when no
  row is found (the UPDATE has then changed nothing).\<close>

definition update_balance :: "row list \<Rightarrow> Card \<Rightarrow> int \<Rightarrow> failure + (row list \<times> Card)" where
  "update_balance db self money =
     (if \<not> int64 money then Inl (Raised OverflowError)
      else if overflows db (number self) money then Inl Real_stored
      else
        (let db1 = map (\<lambda>r. if row_number r = number self
                             then r\<lparr>row_balance := row_balance r + money\<rparr> else r) db
         in case select_by_number db1 (number self) of
              None \<Rightarrow> Inl (Raised TypeError)
            | Some result \<Rightarrow> Inr (db1, self\<lparr>balance := row_balance result\<rparr>)))"

definition delete_card :: "row list \<Rightarrow> Card \<Rightarrow> row list" where
  "delete_card db self = filter (\<lambda>r. row_number r \<noteq> number self) db"

subsection \<open>The transfer\<close>

text \<open>How \<^verbatim>\<open>__do_transfer\<close> ends: normally, with a \<^verbatim>\<open>TransactionError\<close> that it catches and
  prints, or with another exception, which it does not catch; \<open>Inexact\<close> is the end of
  what the model follows, a floating-point balance having been stored.\<close>

datatype outcome = Done | TransactionError string | Uncaught error | Inexact

definition SelfTransferError :: outcome where
  "SelfTransferError = TransactionError ''You can't transfer money to the same account!''"

definition InvalidIdentifierError :: outcome where
  "InvalidIdentifierError =
     TransactionError ''Probably you made a mistake in the card number. Please try again!''"

definition UnknownAccountError :: outcome where
  "UnknownAccountError = TransactionError ''Such a card does not exist.''"

definition InsufficientFundsError :: outcome where
  "InsufficientFundsError = TransactionError ''Not enough money!''"

text \<open>\<^verbatim>\<open>__do_transfer\<close> for the logged-in card \<open>self\<close>. The first line read is \<open>num\<close>; the
  second, read only after the first three checks, is \<open>transfer_money\<close>, which is \<open>None\<close>
  when \<^verbatim>\<open>int\<close> rejects the text.\<close>

definition do_transfer ::
  "row list \<Rightarrow> Card \<Rightarrow> string \<Rightarrow> int option \<Rightarrow> outcome \<times> row list \<times> Card" where
  "do_transfer db self num transfer_money =
     (if num = number self then (SelfTransferError, db, self)
      else case is_valid_card_number num of
        Inl e \<Rightarrow> (Uncaught e, db, self)
      | Inr valid \<Rightarrow>
          if \<not> valid then (InvalidIdentifierError, db, self)
          else case check_card db num None of
            None \<Rightarrow> (UnknownAccountError, db, self)
          | Some transfer_card \<Rightarrow>
              (case transfer_money of
                 None \<Rightarrow> (Uncaught ValueError, db, self)
               | Some m \<Rightarrow>
                   if m > balance self then (InsufficientFundsError, db, self)
                   else case update_balance db self (m * -1) of
                     Inl (Raised e) \<Rightarrow> (Uncaught e, db, self)
                   | Inl Real_stored \<Rightarrow> (Inexact, db, self)
                   | Inr (db1, self1) \<Rightarrow>
                       (case update_balance db1 transfer_card m of
                          Inl (Raised e) \<Rightarrow> (Uncaught e, db1, self1)
                        | Inl Real_stored \<Rightarrow> (Inexact, db1, self1)
                        | Inr (db2, transfer_card1) \<Rightarrow> (Done, db2, self1))))"

subsection \<open>The command loop\<close>

text \<open>The state of \<^verbatim>\<open>SimpleBankingSystem\<close>: the table, \<^verbatim>\<open>self.card\<close>, \<^verbatim>\<open>self.running\<close>, the
  exception that ended the process, if one did, and whether a floating-point balance
  has been stored, where the model stops following the run.\<close>

record bank =
  database :: "row list"
  logged_in :: "Card option"
  running :: bool
  uncaught :: "error option"
  inexact :: bool

text \<open>What one turn of the loop takes from outside: the menu number (\<open>None\<close> when
  \<^verbatim>\<open>int\<close> rejects the text), the lines of text and the integer its handler reads, and the
  two random draws. A handler uses the parts it reads and ignores the others.\<close>

record inputs =
  command :: "int option"
  line1 :: string
  line2 :: string
  amount :: "int option"
  draw_number :: int
  draw_code :: int

definition crash :: "error \<Rightarrow> bank \<Rightarrow> bank" where
  "crash e st = st\<lparr>running := False, uncaught := Some e\<rparr>"

definition exit_program :: "bank \<Rightarrow> bank" where
  "exit_program st = st\<lparr>running := False\<rparr>"

definition create_account :: "inputs \<Rightarrow> bank \<Rightarrow> bank" where
  "create_account inp st =
     (case init_card (database st) (draw_number inp) (draw_code inp) of
        Inl e \<Rightarrow> crash e st
      | Inr (db1, user) \<Rightarrow> st\<lparr>database := db1\<rparr>)"

definition login :: "inputs \<Rightarrow> bank \<Rightarrow> bank" where
  "login inp st = st\<lparr>logged_in := check_card (database st) (line1 inp) (Some (line2 inp))\<rparr>"

definition logout :: "bank \<Rightarrow> bank" where
  "logout st = st\<lparr>logged_in := None\<rparr>"

definition add_income :: "inputs \<Rightarrow> Card \<Rightarrow> bank \<Rightarrow> bank" where
  "add_income inp self st =
     (case amount inp of
        None \<Rightarrow> crash ValueError st
      | Some income \<Rightarrow>
          (case update_balance (database st) self income of
             Inl (Raised e) \<Rightarrow> crash e st
           | Inl Real_stored \<Rightarrow> st\<lparr>inexact := True\<rparr>
           | Inr (db1, self1) \<Rightarrow> st\<lparr>database := db1, logged_in := Some self1\<rparr>))"

definition transfer :: "inputs \<Rightarrow> Card \<Rightarrow> bank \<Rightarrow> bank" where
  "transfer inp self st =
     (case do_transfer (database st) self (line1 inp) (amount inp) of
        (Uncaught e, db1, self1) \<Rightarrow> crash e (st\<lparr>database := db1, logged_in := Some self1\<rparr>)
      | (Inexact, db1, self1) \<Rightarrow>
          st\<lparr>database := db1, logged_in := Some self1, inexact := True\<rparr>
      | (_, db1, self1) \<Rightarrow> st\<lparr>database := db1, logged_in := Some self1\<rparr>)"

definition close_account :: "Card \<Rightarrow> bank \<Rightarrow> bank" where
  "close_account self st = st\<lparr>database := delete_card (database st) self, logged_in := None\<rparr>"

text \<open>One turn of \<^verbatim>\<open>start\<close>: the menu shown depends on whether a card is logged in, and a
  number that is not on the menu raises KeyError.\<close>

definition step :: "inputs \<Rightarrow> bank \<Rightarrow> bank" where
  "step inp st =
     (case command inp of
        None \<Rightarrow> crash ValueError st
      | Some c \<Rightarrow>
          (case logged_in st of
             None \<Rightarrow>
               if c = 1 then create_account inp st
               else if c = 2 then login inp st
               else if c = 0 then exit_program st
               else crash KeyError st
           | Some self \<Rightarrow>
               if c = 1 then st
               else if c = 2 then add_income inp self st
               else if c = 3 then transfer inp self st
               else if c = 4 then close_account self st
               else if c = 5 then logout st
               else if c = 0 then exit_program st
               else crash KeyError st))"

text \<open>\<^verbatim>\<open>while self.running\<close>, over the turns given, as far as the model follows.\<close>

fun start :: "inputs list \<Rightarrow> bank \<Rightarrow> bank" where
  "start [] st = st"
| "start (inp # inps) st =
     (if running st \<and> \<not> inexact st then start inps (step inp st) else st)"

text \<open>\<^verbatim>\<open>main\<close> on a database file that does not exist yet: an empty table, nobody
  logged in.\<close>

definition main_state :: bank where
  "main_state = \<lparr>database = [], logged_in = None, running = True, uncaught = None,
                  inexact = False\<rparr>"


text \<open>A turn on which the menu number \<open>c\<close> is typed; what its handler reads is set by
  record update.\<close>

definition turn :: "int \<Rightarrow> inputs" where
  "turn c = \<lparr>command = Some c, line1 = [], line2 = [], amount = None,
             draw_number = 1, draw_code = 1\<rparr>"

text \<open>The number that a string of decimal digits writes.\<close>

definition digits_value :: "string \<Rightarrow> nat" where
  "digits_value s = foldl (\<lambda>v c. 10 * v + (of_char c - 48)) 0 s"

subsection \<open>The check digit as the specification words it\<close>

definition digit_value :: "char \<Rightarrow> int" where
  "digit_value c = int (of_char c) - 48"

text \<open>A doubled digit that exceeds 9 has 9 subtracted.\<close>

definition spec_double :: "int \<Rightarrow> int" where
  "spec_double d = (if 2 * d > 9 then 2 * d - 9 else 2 * d)"

text \<open>Walking the digits from the rightmost one to the left (the list is the reversed
  input), every second digit is doubled, beginning with the first one met when the flag
  is set.\<close>

fun spec_transform :: "bool \<Rightarrow> int list \<Rightarrow> int list" where
  "spec_transform b [] = []"
| "spec_transform b (d # ds) = (if b then spec_double d else d) # spec_transform (\<not> b) ds"

definition spec_sum :: "int list \<Rightarrow> int" where
  "spec_sum ds = sum_list (spec_transform True (rev ds))"

definition spec_checksum :: "int list \<Rightarrow> int" where
  "spec_checksum ds = (10 - spec_sum ds mod 10) mod 10"

section \<open>Properties\<close>

lemma int_digits_digits: "list_all is_digit s \<Longrightarrow> int_digits s = Inr (map digit_value s)"
  by (induction s) (simp_all add: py_int_def digit_value_def)

lemma int_digits_non_digit: "\<not> list_all is_digit s \<Longrightarrow> int_digits s = Inl ValueError"
  by (induction s) (auto simp: py_int_def split: sum.splits error.splits)

lemma int_digits_Inr: "int_digits s = Inr ds \<Longrightarrow> list_all is_digit s \<and> ds = map digit_value s"
  using int_digits_digits [of s] int_digits_non_digit [of s] by (cases "list_all is_digit s") auto

lemma luhn_body_eq: "i < length ds \<Longrightarrow> luhn_body ds i = ds[i := spec_double (ds ! i)]"
  by (simp add: luhn_body_def spec_double_def Let_def mult.commute)

lemma length_luhn_loop: "i < int (length ds) \<Longrightarrow> length (luhn_loop ds i) = length ds"
proof (induction ds i rule: luhn_loop.induct)
  case (1 digits i)
  show ?case
  proof (cases "i > -1")
    case True
    with 1 show ?thesis
      by (subst luhn_loop.simps) (simp add: luhn_body_eq)
  next
    case False
    then show ?thesis by (subst luhn_loop.simps) simp
  qed
qed

lemma luhn_loop_nth:
  "i < int (length ds) \<Longrightarrow> j < length ds \<Longrightarrow>
   luhn_loop ds i ! j = (if int j \<le> i \<and> even (i - int j) then spec_double (ds ! j) else ds ! j)"
proof (induction ds i rule: luhn_loop.induct)
  case (1 digits i)
  show ?case
  proof (cases "i > -1")
    case True
    let ?ds' = "luhn_body digits (nat i)"
    have len: "length ?ds' = length digits"
      using True 1(2) by (simp add: luhn_body_eq)
    have ih: "luhn_loop ?ds' (i - 2) ! j =
        (if int j \<le> i - 2 \<and> even (i - 2 - int j) then spec_double (?ds' ! j) else ?ds' ! j)"
      using 1(1)[OF True] 1(2,3) len by simp
    have body: "?ds' ! j = (if int j = i then spec_double (digits ! j) else digits ! j)"
      using True 1(2,3) by (auto simp: luhn_body_eq nth_list_update)
    have unfold: "luhn_loop digits i = luhn_loop ?ds' (i - 2)"
      using True by (subst luhn_loop.simps) simp
    show ?thesis
    proof (cases "int j = i")
      case True
      then show ?thesis unfolding unfold ih body by simp
    next
      case False
      have "(int j \<le> i - 2 \<and> even (i - 2 - int j)) = (int j \<le> i \<and> even (i - int j))"
        using False by presburger
      then show ?thesis unfolding unfold ih body using False by simp
    qed
  next
    case False
    then show ?thesis using 1(3) by (subst luhn_loop.simps) simp
  qed
qed

lemma length_spec_transform: "length (spec_transform b xs) = length xs"
  by (induction xs arbitrary: b) simp_all

lemma spec_transform_nth:
  "k < length xs \<Longrightarrow>
   spec_transform b xs ! k = (if even k = b then spec_double (xs ! k) else xs ! k)"
proof (induction xs arbitrary: b k)
  case Nil
  then show ?case by simp
next
  case (Cons x xs)
  then show ?case by (cases k) auto
qed

lemma luhn_loop_spec:
  "rev (luhn_loop ds (int (length ds) - 1)) = spec_transform True (rev ds)"
proof (rule nth_equalityI)
  show "length (rev (luhn_loop ds (int (length ds) - 1))) = length (spec_transform True (rev ds))"
    by (simp add: length_luhn_loop length_spec_transform)
next
  fix k assume "k < length (rev (luhn_loop ds (int (length ds) - 1)))"
  then have k: "k < length ds" by (simp add: length_luhn_loop)
  then have j: "length ds - Suc k < length ds" by simp
  have e: "even (int (length ds) - 1 - int (length ds - Suc k)) = even k"
    using k by (simp add: of_nat_diff algebra_simps)
  have "rev (luhn_loop ds (int (length ds) - 1)) ! k
        = luhn_loop ds (int (length ds) - 1) ! (length ds - Suc k)"
    using k by (simp add: rev_nth length_luhn_loop)
  also have "\<dots> = (if even k then spec_double (ds ! (length ds - Suc k)) else ds ! (length ds - Suc k))"
    using k j e by (subst luhn_loop_nth) auto
  also have "\<dots> = spec_transform True (rev ds) ! k"
    using k by (simp add: spec_transform_nth rev_nth)
  finally show "rev (luhn_loop ds (int (length ds) - 1)) ! k = spec_transform True (rev ds) ! k" .
qed

lemma sum_luhn_loop: "sum_list (luhn_loop ds (int (length ds) - 1)) = spec_sum ds"
  using luhn_loop_spec [of ds] unfolding spec_sum_def by (metis sum_list_rev)

lemma checksum_of_digits:
  "int_digits s = Inr ds \<Longrightarrow> calculate_luhn_checksum s = Inr (spec_checksum ds)"
  by (simp add: calculate_luhn_checksum_def Let_def sum_luhn_loop spec_checksum_def)

lemma checksum_non_digit:
  "\<not> list_all is_digit s \<Longrightarrow> calculate_luhn_checksum s = Inl ValueError"
  by (simp add: calculate_luhn_checksum_def int_digits_non_digit)

lemma spec_checksum_range: "0 \<le> spec_checksum ds \<and> spec_checksum ds \<le> 9"
  unfolding spec_checksum_def
  using pos_mod_bound [of 10 "10 - spec_sum ds mod 10"]
        pos_mod_sign [of 10 "10 - spec_sum ds mod 10"]
  by simp

lemma spec_checksum_total: "(spec_sum ds + spec_checksum ds) mod 10 = 0"
  unfolding spec_checksum_def by presburger

lemma str_digit: "0 \<le> c \<Longrightarrow> c \<le> 9 \<Longrightarrow> str c = [digit_char (nat c)]"
  by (simp add: str_def dec.simps)

lemma is_digit_digit_char: "d \<le> 9 \<Longrightarrow> is_digit (digit_char d)"
  by (simp add: is_digit_def digit_char_def)

lemma is_valid_digits:
  "num \<noteq> [] \<Longrightarrow> int_digits (butlast num) = Inr ds \<Longrightarrow>
   is_valid_card_number num = Inr (last num = digit_char (nat (spec_checksum ds)))"
  using spec_checksum_range [of ds]
  by (auto simp: is_valid_card_number_def Let_def checksum_of_digits str_digit)

text \<open>
  Claim C1. On every string of decimal digits, \<^verbatim>\<open>calculate_luhn_checksum\<close> returns the Luhn
  check digit: walking from the rightmost digit to the left, every second digit, the
  rightmost one first, is doubled, 9 is subtracted from a doubled digit that exceeds 9,
  the digits are summed, and the result is \<open>(10 - sum mod 10) mod 10\<close>. That result is a
  single digit and makes the sum, with it added, a multiple of 10. The function has no
  state: its result is a function of the string.
\<close>
theorem calculate_luhn_checksum_is_luhn:
  "int_digits account_number = Inr ds \<Longrightarrow>
   calculate_luhn_checksum account_number = Inr (spec_checksum ds)
   \<and> 0 \<le> spec_checksum ds \<and> spec_checksum ds \<le> 9
   \<and> (spec_sum ds + spec_checksum ds) mod 10 = 0"
  using checksum_of_digits spec_checksum_range spec_checksum_total by blast

theorem calculate_luhn_checksum_is_luhn_witness:
  "int_digits ''7992739871'' = Inr [7, 9, 9, 2, 7, 3, 9, 8, 7, 1]
   \<and> calculate_luhn_checksum ''7992739871'' = Inr 3
   \<and> spec_sum [7, 9, 9, 2, 7, 3, 9, 8, 7, 1] = 67
   \<and> spec_checksum [7, 9, 9, 2, 7, 3, 9, 8, 7, 1] = 3"
proof -
  have d: "int_digits ''7992739871'' = Inr [7, 9, 9, 2, 7, 3, 9, 8, 7, 1]"
    by (simp add: py_int_def is_digit_def)
  have s: "spec_sum [7, 9, 9, 2, 7, 3, 9, 8, 7, 1] = 67"
    by (simp add: spec_sum_def spec_double_def)
  have c: "spec_checksum [7, 9, 9, 2, 7, 3, 9, 8, 7, 1] = 3"
    by (simp add: spec_checksum_def s)
  show ?thesis
    using calculate_luhn_checksum_is_luhn [OF d] d s c by simp
qed

text \<open>
  Claim C2. For every string of 15 decimal digits, the check digit computed over it,
  appended to it as \<^verbatim>\<open>__create_card\<close> does, gives a string that
  \<^verbatim>\<open>is_valid_card_number\<close> accepts.
\<close>
theorem checksum_appended_is_valid:
  "length s = 15 \<Longrightarrow> list_all is_digit s \<Longrightarrow>
   \<exists>checksum. calculate_luhn_checksum s = Inr checksum
     \<and> is_valid_card_number (s @ str checksum) = Inr True"
proof -
  assume "length s = 15" and dig: "list_all is_digit s"
  let ?c = "spec_checksum (map digit_value s)"
  have ds: "int_digits s = Inr (map digit_value s)"
    using dig by (rule int_digits_digits)
  have r: "0 \<le> ?c \<and> ?c \<le> 9" by (rule spec_checksum_range)
  have "is_valid_card_number (s @ str ?c) = Inr True"
    using r ds by (simp add: is_valid_digits str_digit)
  then show ?thesis using checksum_of_digits [OF ds] by blast
qed

theorem checksum_appended_is_valid_witness:
  "length ''400000000000001'' = 15 \<and> list_all is_digit ''400000000000001''
   \<and> calculate_luhn_checksum ''400000000000001'' = Inr 0
   \<and> is_valid_card_number ''4000000000000010'' = Inr True"
proof -
  have l: "length ''400000000000001'' = 15" by simp
  have d: "list_all is_digit ''400000000000001''" by (simp add: is_digit_def)
  have c: "calculate_luhn_checksum ''400000000000001'' = Inr 0" by code_simp
  have s: "str 0 = ''0''" by code_simp
  show ?thesis
    using checksum_appended_is_valid [OF l d] l d c s by auto
qed

text \<open>
  Claim C5, as the code has it. \<^verbatim>\<open>is_valid_card_number\<close> returns a boolean exactly on the
  non-empty strings whose characters before the last are all decimal digits: true when
  the last character is the check digit of the ones before it, false otherwise (so false
  when the last character is not a digit). The length is not looked at. On the empty
  string it raises IndexError, and on a string with a non-digit before the last character
  it raises ValueError.
\<close>
theorem is_valid_card_number_cases:
  "is_valid_card_number num =
     (if \<not> list_all is_digit (butlast num) then Inl ValueError
      else if num = [] then Inl IndexError
      else Inr (last num = digit_char (nat (spec_checksum (map digit_value (butlast num))))))"
  using spec_checksum_range [of "map digit_value (butlast num)"]
  by (auto simp: is_valid_card_number_def Let_def checksum_non_digit
        checksum_of_digits [OF int_digits_digits] str_digit)

text \<open>Strings of the wrong length that are accepted, a non-digit that raises, and the
  empty string, which raises too.\<close>

theorem is_valid_card_number_malformed:
  "is_valid_card_number ''0'' = Inr True \<and> is_valid_card_number ''18'' = Inr True
   \<and> is_valid_card_number ''4x00000000000002'' = Inl ValueError
   \<and> is_valid_card_number [] = Inl IndexError"
  by code_simp

lemma dec_digits: "list_all is_digit (dec n)"
proof (induction n rule: dec.induct)
  case (1 n)
  show ?case
  proof (cases "n < 10")
    case True
    then show ?thesis by (subst dec.simps) (simp add: is_digit_digit_char)
  next
    case False
    have "n mod 10 \<le> 9" by presburger
    then have "is_digit (digit_char (n mod 10))" by (rule is_digit_digit_char)
    with 1 False show ?thesis by (subst dec.simps) simp
  qed
qed

lemma length_dec: "n < 10 ^ k \<Longrightarrow> 0 < k \<Longrightarrow> length (dec n) \<le> k"
proof (induction n arbitrary: k rule: dec.induct)
  case (1 n)
  show ?case
  proof (cases "n < 10")
    case True
    then show ?thesis using 1(3) by (subst dec.simps) simp
  next
    case False
    obtain j where k: "k = Suc j" using 1(3) by (cases k) auto
    have "j \<noteq> 0" using False 1(2) k by (cases j) auto
    then have j: "0 < j" by simp
    have "n div 10 < 10 ^ j" using 1(2) k by (simp add: less_mult_imp_div_less mult.commute)
    from 1(1) [OF False this j] show ?thesis
      using False k by (subst dec.simps) simp
  qed
qed

lemma dec_nonzero: "0 < n \<Longrightarrow> \<exists>c \<in> set (dec n). c \<noteq> CHR ''0''"
proof (induction n rule: dec.induct)
  case (1 n)
  show ?case
  proof (cases "n < 10")
    case True
    have "digit_char n \<noteq> CHR ''0''"
    proof
      assume "digit_char n = CHR ''0''"
      then have "of_char (digit_char n) = (of_char (CHR ''0'') :: nat)" by simp
      then show False using True 1(2) by (simp add: digit_char_def)
    qed
    then show ?thesis using True by (subst dec.simps) simp
  next
    case False
    then have "0 < n div 10" by simp
    from 1(1) [OF False this] show ?thesis
      using False by (subst dec.simps) auto
  qed
qed

lemma format_0d_9:
  assumes "r \<in> randint 1 999999999"
  shows "length (format_0d 9 r) = 9" and "list_all is_digit (format_0d 9 r)"
    and "format_0d 9 r \<noteq> ''000000000''"
proof -
  have r: "1 \<le> r" "r \<le> 999999999" using assms by (simp_all add: randint_def)
  then have "nat r < 10 ^ 9" by simp
  then have len: "length (dec (nat r)) \<le> 9" by (rule length_dec) simp
  have f: "format_0d 9 r = replicate (9 - length (dec (nat r))) CHR ''0'' @ dec (nat r)"
    using r by (simp add: format_0d_def)
  show "length (format_0d 9 r) = 9" using len by (simp add: f)
  have z: "is_digit CHR ''0''" by (simp add: is_digit_def)
  show "list_all is_digit (format_0d 9 r)"
    using dec_digits [of "nat r"] z by (auto simp: f list_all_iff)
  have "0 < nat r" using r by simp
  then obtain c where "c \<in> set (dec (nat r))" "c \<noteq> CHR ''0''" using dec_nonzero by blast
  then have "c \<in> set (format_0d 9 r)" by (simp add: f)
  moreover have "set ''000000000'' = {CHR ''0''}" by simp
  ultimately show "format_0d 9 r \<noteq> ''000000000''" using \<open>c \<noteq> CHR ''0''\<close> by auto
qed

lemma create_card_digits:
  assumes "list_all is_digit account_number"
  shows "\<exists>checksum. calculate_luhn_checksum account_number = Inr checksum
     \<and> 0 \<le> checksum \<and> checksum \<le> 9 \<and> length (str checksum) = 1
     \<and> list_all is_digit (str checksum)
     \<and> is_valid_card_number (account_number @ str checksum) = Inr True"
proof -
  let ?c = "spec_checksum (map digit_value account_number)"
  have ds: "int_digits account_number = Inr (map digit_value account_number)"
    using assms by (rule int_digits_digits)
  have r: "0 \<le> ?c \<and> ?c \<le> 9" by (rule spec_checksum_range)
  then have n: "nat ?c \<le> 9" by linarith
  have v: "is_valid_card_number (account_number @ str ?c) = Inr True"
    using r ds by (simp add: is_valid_digits str_digit)
  show ?thesis
    using checksum_of_digits [OF ds] r v is_digit_digit_char [OF n] by (simp add: str_digit)
qed

lemma inn_digits: "list_all is_digit ''400000''"
  by (simp add: is_digit_def)

lemma create_card_no_zero_segment:
  assumes "r \<in> randint 1 999999999"
  shows "create_card r \<noteq> Inr (''400000'' @ ''000000000'' @ tail)"
proof
  assume a: "create_card r = Inr (''400000'' @ ''000000000'' @ tail)"
  note f = format_0d_9 [OF assms]
  have "list_all is_digit (''400000'' @ format_0d 9 r)"
    using inn_digits f(2) by (simp only: list_all_append)
  from create_card_digits [OF this] obtain checksum where
    c: "calculate_luhn_checksum (''400000'' @ format_0d 9 r) = Inr checksum" by blast
  have "create_card r = Inr (''400000'' @ format_0d 9 r @ str checksum)"
    using c by (simp add: create_card_def)
  with a have e: "format_0d 9 r @ str checksum = ''000000000'' @ tail" by simp
  have "length (format_0d 9 r) = length ''000000000''" using f(1) by simp
  then have "format_0d 9 r = ''000000000''"
    using e append_eq_append_conv [of "format_0d 9 r" "''000000000''" "str checksum" tail]
    by blast
  then show False using f(3) by simp
qed

text \<open>The all-zero segment belongs to the draw 0 only, and 0 is not a result of
  \<^verbatim>\<open>randint(1, 999999999)\<close>: no draw gives the number with that segment.\<close>

theorem create_card_never_all_zero:
  "create_card 0 = Inr ''4000000000000002'' \<and> 0 \<notin> randint 1 999999999
   \<and> Inr ''4000000000000002'' \<notin> create_card_outcomes"
proof -
  have a: "create_card 0 = Inr ''4000000000000002''" by code_simp
  have b: "0 \<notin> randint 1 999999999" by (simp add: randint_def)
  have c: "Inr ''4000000000000002'' \<notin> create_card_outcomes"
    unfolding create_card_outcomes_def
    using create_card_no_zero_segment [of _ "''2''"] by force
  show ?thesis using a b c by simp
qed

lemma digits_value_snoc:
  "digits_value (t @ [c]) = 10 * digits_value t + (of_char c - 48)"
  by (simp add: digits_value_def)

lemma digit_char_of_char: "is_digit c \<Longrightarrow> digit_char (of_char c - 48) = c"
  by (simp add: digit_char_def is_digit_def)

lemma of_char_digit_le: "is_digit c \<Longrightarrow> (of_char c :: nat) - 48 \<le> 9"
  unfolding is_digit_def by arith

lemma dec_0: "dec 0 = ''0''"
  by code_simp

lemma dec_times_10:
  "0 < v \<Longrightarrow> d \<le> 9 \<Longrightarrow> dec (10 * v + d) = dec v @ [digit_char d]"
  by (subst dec.simps) simp

lemma dec_digits_value:
  "s \<noteq> [] \<Longrightarrow> list_all is_digit s \<Longrightarrow>
   replicate (length s - length (dec (digits_value s))) CHR ''0'' @ dec (digits_value s) = s"
proof (induction s rule: rev_induct)
  case Nil
  then show ?case by simp
next
  case (snoc c t)
  have c: "is_digit c" and t: "list_all is_digit t" using snoc.prems(2) by simp_all
  let ?d = "(of_char c :: nat) - 48"
  have d: "?d \<le> 9" using c by (rule of_char_digit_le)
  have dc: "digit_char ?d = c" using c by (rule digit_char_of_char)
  show ?case
  proof (cases "t = []")
    case True
    then show ?thesis using d dc by (simp add: digits_value_def dec.simps)
  next
    case False
    note ih = snoc.IH [OF False t]
    show ?thesis
    proof (cases "digits_value t = 0")
      case True
      have "replicate (length t - 1) CHR ''0'' @ ''0'' = t"
        using ih True by (simp add: dec_0)
      then have "replicate (Suc (length t - 1)) CHR ''0'' = t"
        by (simp add: replicate_append_same)
      then have z: "replicate (length t) CHR ''0'' = t" using False by simp
      have "dec (digits_value (t @ [c])) = [c]"
        using True d dc by (simp add: digits_value_snoc dec.simps)
      then show ?thesis using z by simp
    next
      case False
      then have "dec (digits_value (t @ [c])) = dec (digits_value t) @ [c]"
        using d dc by (simp add: digits_value_snoc dec_times_10)
      then show ?thesis using ih by simp
    qed
  qed
qed

lemma digits_value_bound: "list_all is_digit s \<Longrightarrow> digits_value s < 10 ^ length s"
proof (induction s rule: rev_induct)
  case Nil
  then show ?case by (simp add: digits_value_def)
next
  case (snoc c t)
  have "(of_char c :: nat) - 48 \<le> 9" using snoc.prems by (simp add: of_char_digit_le)
  moreover have "digits_value t < 10 ^ length t" using snoc by simp
  ultimately show ?case by (simp add: digits_value_snoc)
qed

lemma segment_drawn:
  assumes "length seg = 9" and "list_all is_digit seg" and "seg \<noteq> ''000000000''"
  shows "int (digits_value seg) \<in> randint 1 999999999
       \<and> format_0d 9 (int (digits_value seg)) = seg"
proof -
  have ne: "seg \<noteq> []" using assms(1) by auto
  have f: "replicate (9 - length (dec (digits_value seg))) CHR ''0'' @ dec (digits_value seg) = seg"
    using dec_digits_value [OF ne assms(2)] assms(1) by simp
  have "digits_value seg \<noteq> 0"
  proof
    assume "digits_value seg = 0"
    moreover have "replicate 8 CHR ''0'' = ''00000000''" by (simp add: eval_nat_numeral)
    ultimately have "seg = ''000000000''" using f by (simp add: dec_0)
    then show False using assms(3) by simp
  qed
  moreover have "digits_value seg < 10 ^ 9"
    using digits_value_bound [OF assms(2)] assms(1) by simp
  ultimately have "int (digits_value seg) \<in> randint 1 999999999"
    by (simp add: randint_def)
  moreover have "format_0d 9 (int (digits_value seg)) = seg"
    using f by (simp add: format_0d_def)
  ultimately show ?thesis by simp
qed

lemma create_card_valid:
  assumes "r \<in> randint 1 999999999"
  shows "\<exists>n. create_card r = Inr n \<and> is_valid_card_number n = Inr True"
proof -
  note f = format_0d_9 [OF assms]
  have "list_all is_digit (''400000'' @ format_0d 9 r)"
    using inn_digits f(2) by (simp only: list_all_append)
  from create_card_digits [OF this] obtain checksum where
    "calculate_luhn_checksum (''400000'' @ format_0d 9 r) = Inr checksum"
    "is_valid_card_number ((''400000'' @ format_0d 9 r) @ str checksum) = Inr True"
    by blast
  then show ?thesis by (simp add: create_card_def)
qed

text \<open>
  Claim C8, as the code has it. For every draw \<open>r\<close> of \<^verbatim>\<open>randint(1, 999999999)\<close>,
  \<^verbatim>\<open>__create_card\<close> returns the prefix 400000, then the 9-digit zero-padded decimal form
  of \<open>r\<close>, which is never all zeros, then the single check digit computed over these 15
  digits: a string of 16 decimal digits that \<^verbatim>\<open>is_valid_card_number\<close> accepts. Every
  string of 9 decimal digits other than the all-zero one is the segment of some draw.
\<close>
theorem create_card_shape:
  "(r \<in> randint 1 999999999 \<longrightarrow>
      (\<exists>segment checksum.
           segment = format_0d 9 r \<and> length segment = 9 \<and> list_all is_digit segment
         \<and> segment \<noteq> ''000000000''
         \<and> calculate_luhn_checksum (''400000'' @ segment) = Inr checksum
         \<and> length (str checksum) = 1
         \<and> create_card r = Inr (''400000'' @ segment @ str checksum)
         \<and> length (''400000'' @ segment @ str checksum) = 16
         \<and> list_all is_digit (''400000'' @ segment @ str checksum)
         \<and> is_valid_card_number (''400000'' @ segment @ str checksum) = Inr True))
   \<and> (length seg = 9 \<and> list_all is_digit seg \<and> seg \<noteq> ''000000000'' \<longrightarrow>
        (\<exists>k. k \<in> randint 1 999999999 \<and> format_0d 9 k = seg))"
proof (intro conjI impI)
  assume r: "r \<in> randint 1 999999999"
  note f = format_0d_9 [OF r]
  have "list_all is_digit (''400000'' @ format_0d 9 r)"
    using inn_digits f(2) by (simp only: list_all_append)
  from create_card_digits [OF this] obtain checksum where
    c: "calculate_luhn_checksum (''400000'' @ format_0d 9 r) = Inr checksum"
    and l: "length (str checksum) = 1" and d: "list_all is_digit (str checksum)"
    and v: "is_valid_card_number ((''400000'' @ format_0d 9 r) @ str checksum) = Inr True"
    by blast
  have cc: "create_card r = Inr (''400000'' @ format_0d 9 r @ str checksum)"
    using c by (simp add: create_card_def)
  have len: "length (''400000'' @ format_0d 9 r @ str checksum) = 16"
    using f(1) l by simp
  have dig: "list_all is_digit (''400000'' @ format_0d 9 r @ str checksum)"
    using inn_digits f(2) d by (simp only: list_all_append)
  show "\<exists>segment checksum.
           segment = format_0d 9 r \<and> length segment = 9 \<and> list_all is_digit segment
         \<and> segment \<noteq> ''000000000''
         \<and> calculate_luhn_checksum (''400000'' @ segment) = Inr checksum
         \<and> length (str checksum) = 1
         \<and> create_card r = Inr (''400000'' @ segment @ str checksum)
         \<and> length (''400000'' @ segment @ str checksum) = 16
         \<and> list_all is_digit (''400000'' @ segment @ str checksum)
         \<and> is_valid_card_number (''400000'' @ segment @ str checksum) = Inr True"
    using f c l cc len dig v by (intro exI [of _ "format_0d 9 r"] exI [of _ checksum]) simp
next
  assume "length seg = 9 \<and> list_all is_digit seg \<and> seg \<noteq> ''000000000''"
  then show "\<exists>k. k \<in> randint 1 999999999 \<and> format_0d 9 k = seg"
    using segment_drawn [of seg] by blast
qed

theorem create_card_shape_witness:
  "1 \<in> randint 1 999999999 \<and> format_0d 9 1 = ''000000001''
   \<and> calculate_luhn_checksum (''400000'' @ ''000000001'') = Inr 0
   \<and> create_card 1 = Inr ''4000000000000010''
   \<and> is_valid_card_number ''4000000000000010'' = Inr True
   \<and> length ''123456789'' = 9 \<and> list_all is_digit ''123456789''
   \<and> (\<exists>k. k \<in> randint 1 999999999 \<and> format_0d 9 k = ''123456789'')"
proof -
  have r: "1 \<in> randint 1 999999999" by (simp add: randint_def)
  have f: "format_0d 9 1 = ''000000001''" by code_simp
  have c: "calculate_luhn_checksum (''400000'' @ ''000000001'') = Inr 0" by code_simp
  have s: "str 0 = ''0''" by code_simp
  have g: "length ''123456789'' = 9 \<and> list_all is_digit ''123456789''
      \<and> ''123456789'' \<noteq> ''000000000''"
    by (simp add: is_digit_def)
  note t = create_card_shape [of 1 "''123456789''"]
  from t r obtain checksum where
    "calculate_luhn_checksum (''400000'' @ format_0d 9 1) = Inr checksum"
    "create_card 1 = Inr (''400000'' @ format_0d 9 1 @ str checksum)"
    "is_valid_card_number (''400000'' @ format_0d 9 1 @ str checksum) = Inr True"
    by blast
  then have "create_card 1 = Inr ''4000000000000010''"
    and "is_valid_card_number ''4000000000000010'' = Inr True"
    using f c s by simp_all
  moreover have "\<exists>k. k \<in> randint 1 999999999 \<and> format_0d 9 k = ''123456789''"
    using t g by blast
  ultimately show ?thesis using r f c g by blast
qed


subsection \<open>The ledger\<close>

lemma select_by_number_map:
  "select_by_number (map (\<lambda>r. if row_number r = n then r\<lparr>row_balance := row_balance r + m\<rparr> else r) db) k
   = map_option (\<lambda>r. if row_number r = n then r\<lparr>row_balance := row_balance r + m\<rparr> else r)
       (select_by_number db k)"
  unfolding select_by_number_def by (induction db) auto

lemma select_by_number_pin_map:
  "select_by_number_pin (map (\<lambda>r. if row_number r = n then r\<lparr>row_balance := row_balance r + m\<rparr> else r) db) k p
   = map_option (\<lambda>r. if row_number r = n then r\<lparr>row_balance := row_balance r + m\<rparr> else r)
       (select_by_number_pin db k p)"
  unfolding select_by_number_pin_def by (induction db) auto

lemma select_by_number_number:
  "select_by_number db k = Some r \<Longrightarrow> row_number r = k"
  unfolding select_by_number_def by (auto dest: find_Some_iff [THEN iffD1])

lemma select_by_number_None_iff:
  "(select_by_number db k = None) = (k \<notin> set (map row_number db))"
  by (auto simp: select_by_number_def find_None_iff)

lemma overflows_iff:
  "overflows db k m = (\<exists>r \<in> set db. row_number r = k \<and> \<not> int64 (row_balance r + m))"
  by (simp add: overflows_def list_ex_iff)

lemma overflows_missing: "select_by_number db k = None \<Longrightarrow> \<not> overflows db k m"
  by (auto simp: overflows_iff select_by_number_None_iff)

lemma overflows_map_other:
  "n \<noteq> k \<Longrightarrow>
   overflows (map (\<lambda>r. if row_number r = n then r\<lparr>row_balance := row_balance r + x\<rparr> else r) db) k m
   = overflows db k m"
  by (induction db) (auto simp: overflows_def)

lemma update_balance_found:
  assumes "select_by_number db (number self) = Some r" and "int64 m"
    and "\<not> overflows db (number self) m"
  shows "update_balance db self m =
     Inr (map (\<lambda>r. if row_number r = number self then r\<lparr>row_balance := row_balance r + m\<rparr> else r) db,
          self\<lparr>balance := row_balance r + m\<rparr>)"
proof -
  have "row_number r = number self" using assms(1) by (rule select_by_number_number)
  then show ?thesis
    using assms by (simp add: update_balance_def Let_def select_by_number_map)
qed

lemma update_balance_missing:
  "select_by_number db (number self) = None \<Longrightarrow> int64 m \<Longrightarrow>
   update_balance db self m = Inl (Raised TypeError)"
  by (simp add: update_balance_def Let_def select_by_number_map overflows_missing)

lemma update_balance_overflow:
  "\<not> int64 m \<Longrightarrow> update_balance db self m = Inl (Raised OverflowError)"
  by (simp add: update_balance_def)

lemma update_balance_real:
  "int64 m \<Longrightarrow> overflows db (number self) m \<Longrightarrow> update_balance db self m = Inl Real_stored"
  by (simp add: update_balance_def)

lemma update_balance_Inr:
  assumes "update_balance db self m = Inr (db1, self1)"
  shows "\<exists>r. select_by_number db (number self) = Some r
     \<and> int64 m \<and> \<not> overflows db (number self) m
     \<and> db1 = map (\<lambda>r. if row_number r = number self then r\<lparr>row_balance := row_balance r + m\<rparr> else r) db
     \<and> self1 = self\<lparr>balance := row_balance r + m\<rparr>"
proof -
  have i: "int64 m" using assms update_balance_overflow [of m db self] by (cases "int64 m") auto
  have o: "\<not> overflows db (number self) m"
    using assms i update_balance_real [of m db self] by (cases "overflows db (number self) m") auto
  show ?thesis
  proof (cases "select_by_number db (number self)")
    case None
    with update_balance_missing [OF None i] assms show ?thesis by simp
  next
    case (Some r)
    with update_balance_found [OF Some i o] assms i o show ?thesis by simp
  qed
qed

lemma check_card_None:
  "check_card db k None =
     map_option (\<lambda>r. \<lparr>number = row_number r, code = row_pin r, balance = row_balance r\<rparr>)
       (select_by_number db k)"
  by (simp add: check_card_def split: option.splits)

lemma check_card_map:
  "check_card (map (\<lambda>r. if row_number r = n then r\<lparr>row_balance := row_balance r + m\<rparr> else r) db) k cod
   = map_option (\<lambda>c. if number c = n then c\<lparr>balance := balance c + m\<rparr> else c)
       (check_card db k cod)"
  by (auto simp: check_card_def select_by_number_map select_by_number_pin_map
      split: option.splits list.splits)

lemma check_card_stored:
  "check_card db num cod = Some c \<Longrightarrow> number c = num \<and> select_by_number db num \<noteq> None"
proof -
  assume a: "check_card db num cod = Some c"
  then obtain r where r: "number c = row_number r"
    and f: "select_by_number_pin db num (the cod) = Some r \<or> select_by_number db num = Some r"
    by (auto simp: check_card_def split: option.splits list.splits)
  then have "r \<in> set db \<and> row_number r = num"
    by (auto simp: select_by_number_pin_def select_by_number_def find_Some_iff)
  then have "number c = num" and "num \<in> set (map row_number db)"
    using r by (simp, force)
  then show ?thesis by (simp add: select_by_number_None_iff)
qed

text \<open>
  Claim C7, as the code has it. For a card whose number is in the table: when \<open>delta\<close>
  is a 64-bit integer and the sums with the stored balances of that number are too,
  \<^verbatim>\<open>update_balance\<close> succeeds; the balance then read from the table for that number is the
  one read before plus \<open>delta\<close>; the balance field of the object equals it, whatever it
  held before; number and code of the object stay; and what the table returns for every
  other number is unchanged. When \<open>delta\<close> is not a 64-bit integer, OverflowError is
  raised and nothing is changed; when a sum leaves the 64-bit integers, a floating-point
  value is stored.
\<close>
theorem update_balance_rereads:
  assumes "select_by_number db (number self) = Some r"
  shows "(int64 delta \<and> \<not> overflows db (number self) delta \<longrightarrow>
           (\<exists>db1 self1 r1. update_balance db self delta = Inr (db1, self1)
             \<and> select_by_number db1 (number self) = Some r1
             \<and> row_balance r1 = row_balance r + delta
             \<and> balance self1 = row_balance r1
             \<and> number self1 = number self \<and> code self1 = code self
             \<and> (\<forall>k. k \<noteq> number self \<longrightarrow> select_by_number db1 k = select_by_number db k)))
       \<and> (\<not> int64 delta \<longrightarrow> update_balance db self delta = Inl (Raised OverflowError))
       \<and> (int64 delta \<and> overflows db (number self) delta \<longrightarrow>
            update_balance db self delta = Inl Real_stored)"
proof (intro conjI impI)
  assume h: "int64 delta \<and> \<not> overflows db (number self) delta"
  let ?f = "\<lambda>r. if row_number r = number self then r\<lparr>row_balance := row_balance r + delta\<rparr> else r"
  have n: "row_number r = number self" using assms by (rule select_by_number_number)
  have u: "update_balance db self delta = Inr (map ?f db, self\<lparr>balance := row_balance r + delta\<rparr>)"
    using assms h by (simp add: update_balance_found)
  have s: "select_by_number (map ?f db) (number self) = Some (r\<lparr>row_balance := row_balance r + delta\<rparr>)"
    using assms n by (simp add: select_by_number_map)
  have o: "\<forall>k. k \<noteq> number self \<longrightarrow> select_by_number (map ?f db) k = select_by_number db k"
  proof (intro allI impI)
    fix k assume k: "k \<noteq> number self"
    show "select_by_number (map ?f db) k = select_by_number db k"
    proof (cases "select_by_number db k")
      case None
      then show ?thesis by (simp add: select_by_number_map)
    next
      case (Some q)
      then have "row_number q = k" by (rule select_by_number_number)
      with k Some show ?thesis by (simp add: select_by_number_map)
    qed
  qed
  show "\<exists>db1 self1 r1. update_balance db self delta = Inr (db1, self1)
             \<and> select_by_number db1 (number self) = Some r1
             \<and> row_balance r1 = row_balance r + delta
             \<and> balance self1 = row_balance r1
             \<and> number self1 = number self \<and> code self1 = code self
             \<and> (\<forall>k. k \<noteq> number self \<longrightarrow> select_by_number db1 k = select_by_number db k)"
    using u s o by simp
next
  assume "\<not> int64 delta"
  then show "update_balance db self delta = Inl (Raised OverflowError)"
    by (rule update_balance_overflow)
next
  assume "int64 delta \<and> overflows db (number self) delta"
  then show "update_balance db self delta = Inl Real_stored"
    by (simp add: update_balance_real)
qed

lemma do_transfer_done:
  assumes "num \<noteq> number self" and "is_valid_card_number num = Inr True"
    and "select_by_number db num = Some d" and "select_by_number db (number self) = Some s"
    and "m \<le> balance self"
    and "int64 (- m)" and "int64 m"
    and "\<not> overflows db (number self) (- m)" and "\<not> overflows db num m"
  shows "do_transfer db self num (Some m) =
     (Done,
      map (\<lambda>r. if row_number r = num then r\<lparr>row_balance := row_balance r + m\<rparr> else r)
        (map (\<lambda>r. if row_number r = number self then r\<lparr>row_balance := row_balance r + - m\<rparr> else r) db),
      self\<lparr>balance := row_balance s + - m\<rparr>)"
proof -
  let ?dest = "\<lparr>number = row_number d, code = row_pin d, balance = row_balance d\<rparr>"
  let ?db1 = "map (\<lambda>r. if row_number r = number self then r\<lparr>row_balance := row_balance r + - m\<rparr> else r) db"
  have dn: "row_number d = num" using assms(3) by (rule select_by_number_number)
  have c: "check_card db num None = Some ?dest"
    using assms(3) by (simp add: check_card_None)
  have u1: "update_balance db self (m * -1) = Inr (?db1, self\<lparr>balance := row_balance s + - m\<rparr>)"
    using update_balance_found [OF assms(4,6,8)] by simp
  have "select_by_number ?db1 num = Some d"
    using assms(1,3) dn by (simp add: select_by_number_map)
  then have sd: "select_by_number ?db1 (number ?dest) = Some d" using dn by simp
  have od: "\<not> overflows ?db1 (number ?dest) m"
    using assms(1,9) dn by (simp add: overflows_map_other)
  from update_balance_found [OF sd assms(7) od]
  have u2: "update_balance ?db1 ?dest m =
      Inr (map (\<lambda>r. if row_number r = num then r\<lparr>row_balance := row_balance r + m\<rparr> else r) ?db1,
           ?dest\<lparr>balance := row_balance d + m\<rparr>)"
    using dn by simp
  show ?thesis
    using assms(1,2,5) c u1 u2 by (simp add: do_transfer_def)
qed

lemma do_transfer_self:
  "do_transfer db self (number self) money = (SelfTransferError, db, self)"
  by (simp add: do_transfer_def)

lemma do_transfer_invalid:
  "num \<noteq> number self \<Longrightarrow> is_valid_card_number num = Inr False \<Longrightarrow>
   do_transfer db self num money = (InvalidIdentifierError, db, self)"
  by (simp add: do_transfer_def)

lemma do_transfer_raises:
  "num \<noteq> number self \<Longrightarrow> is_valid_card_number num = Inl e \<Longrightarrow>
   do_transfer db self num money = (Uncaught e, db, self)"
  by (simp add: do_transfer_def)

lemma do_transfer_unknown:
  "num \<noteq> number self \<Longrightarrow> is_valid_card_number num = Inr True \<Longrightarrow>
   check_card db num None = None \<Longrightarrow>
   do_transfer db self num money = (UnknownAccountError, db, self)"
  by (simp add: do_transfer_def)

lemma do_transfer_insufficient:
  "num \<noteq> number self \<Longrightarrow> is_valid_card_number num = Inr True \<Longrightarrow>
   check_card db num None = Some dest \<Longrightarrow> m > balance self \<Longrightarrow>
   do_transfer db self num (Some m) = (InsufficientFundsError, db, self)"
  by (simp add: do_transfer_def)

lemma do_transfer_unbindable:
  "num \<noteq> number self \<Longrightarrow> is_valid_card_number num = Inr True \<Longrightarrow>
   check_card db num None = Some dest \<Longrightarrow> m \<le> balance self \<Longrightarrow> \<not> int64 (- m) \<Longrightarrow>
   do_transfer db self num (Some m) = (Uncaught OverflowError, db, self)"
  by (simp add: do_transfer_def update_balance_overflow)

lemma do_transfer_applied:
  assumes "num \<noteq> number self" and "is_valid_card_number num = Inr True"
    and "check_card db num None = Some dest" and "m \<le> balance self"
    and "select_by_number db (number self) = Some s"
    and "int64 (- m)" and "int64 m"
    and "\<not> overflows db (number self) (- m)" and "\<not> overflows db num m"
  shows "\<exists>db1 self1 db2 dest1.
           update_balance db self (- m) = Inr (db1, self1)
         \<and> update_balance db1 dest m = Inr (db2, dest1)
         \<and> do_transfer db self num (Some m) = (Done, db2, self1)"
proof -
  from assms(3) obtain d where d: "select_by_number db num = Some d"
    and dest: "dest = \<lparr>number = row_number d, code = row_pin d, balance = row_balance d\<rparr>"
    by (auto simp: check_card_None)
  have dn: "row_number d = num" using d by (rule select_by_number_number)
  let ?db1 = "map (\<lambda>r. if row_number r = number self then r\<lparr>row_balance := row_balance r + - m\<rparr> else r) db"
  have u1: "update_balance db self (- m) = Inr (?db1, self\<lparr>balance := row_balance s + - m\<rparr>)"
    using assms(5,6,8) by (rule update_balance_found)
  have sd: "select_by_number ?db1 (number dest) = Some d"
    using assms(1) d dn dest by (simp add: select_by_number_map)
  have od: "\<not> overflows ?db1 (number dest) m"
    using assms(1,9) dn dest by (simp add: overflows_map_other)
  from update_balance_found [OF sd assms(7) od]
  have u2: "update_balance ?db1 dest m =
      Inr (map (\<lambda>r. if row_number r = num then r\<lparr>row_balance := row_balance r + m\<rparr> else r) ?db1,
           dest\<lparr>balance := row_balance d + m\<rparr>)"
    using dn dest by simp
  have "do_transfer db self num (Some m) =
      (Done, map (\<lambda>r. if row_number r = num then r\<lparr>row_balance := row_balance r + m\<rparr> else r) ?db1,
       self\<lparr>balance := row_balance s + - m\<rparr>)"
    by (rule do_transfer_done [OF assms(1,2) d assms(5,4,6,7,8,9)])
  with u1 u2 show ?thesis by blast
qed

text \<open>
  Claim C3, as the code has it. \<^verbatim>\<open>__do_transfer\<close> checks in this order, and stops at the
  first check that fails: the number typed is the card's own (SelfTransferError);
  \<^verbatim>\<open>is_valid_card_number\<close> returns false on it (InvalidIdentifierError), and when
  \<^verbatim>\<open>is_valid_card_number\<close> raises instead, its exception leaves the transfer uncaught; no
  row has the number (UnknownAccountError); the amount exceeds the balance of the
  logged-in card (InsufficientFundsError). When all four pass, an amount whose negation
  is not a 64-bit integer raises OverflowError, uncaught, with nothing changed; and for a
  card that is in the table, amounts and sums being 64-bit integers, the card is debited
  by \<^verbatim>\<open>update_balance\<close> with the negated amount and then the destination is credited by
  \<^verbatim>\<open>update_balance\<close> with the amount.
\<close>
theorem do_transfer_checks_in_order:
  "(num = number self \<longrightarrow> do_transfer db self num money = (SelfTransferError, db, self))
   \<and> (num \<noteq> number self \<and> is_valid_card_number num = Inr False \<longrightarrow>
        do_transfer db self num money = (InvalidIdentifierError, db, self))
   \<and> (num \<noteq> number self \<and> is_valid_card_number num = Inl e \<longrightarrow>
        do_transfer db self num money = (Uncaught e, db, self))
   \<and> (num \<noteq> number self \<and> is_valid_card_number num = Inr True
        \<and> check_card db num None = None \<longrightarrow>
        do_transfer db self num money = (UnknownAccountError, db, self))
   \<and> (num \<noteq> number self \<and> is_valid_card_number num = Inr True
        \<and> check_card db num None = Some dest \<and> m > balance self \<longrightarrow>
        do_transfer db self num (Some m) = (InsufficientFundsError, db, self))
   \<and> (num \<noteq> number self \<and> is_valid_card_number num = Inr True
        \<and> check_card db num None = Some dest \<and> m \<le> balance self \<and> \<not> int64 (- m) \<longrightarrow>
        do_transfer db self num (Some m) = (Uncaught OverflowError, db, self))
   \<and> (num \<noteq> number self \<and> is_valid_card_number num = Inr True
        \<and> check_card db num None = Some dest \<and> m \<le> balance self
        \<and> select_by_number db (number self) = Some s
        \<and> int64 (- m) \<and> int64 m
        \<and> \<not> overflows db (number self) (- m) \<and> \<not> overflows db num m \<longrightarrow>
        (\<exists>db1 self1 db2 dest1.
           update_balance db self (- m) = Inr (db1, self1)
         \<and> update_balance db1 dest m = Inr (db2, dest1)
         \<and> do_transfer db self num (Some m) = (Done, db2, self1)))"
  using do_transfer_self [of db self money] do_transfer_invalid [of num self db money]
    do_transfer_raises [of num self e db money]
    do_transfer_unknown [of num self db money] do_transfer_insufficient [of num self db dest m]
    do_transfer_unbindable [of num self db dest m]
    do_transfer_applied [of num self db dest m s]
  by blast

lemma transfer_caught:
  "do_transfer (database st) self (line1 inp) (amount inp) = (TransactionError msg, database st, self)
   \<Longrightarrow> logged_in st = Some self \<Longrightarrow> transfer inp self st = st"
  by (simp add: transfer_def)

lemma transfer_uncaught:
  assumes "do_transfer (database st) self (line1 inp) (amount inp) = (Uncaught e, database st, self)"
    and "logged_in st = Some self"
  shows "transfer inp self st = crash e st"
proof -
  have "st\<lparr>database := database st, logged_in := Some self\<rparr> = st"
    using assms(2) by simp
  then show ?thesis using assms(1) by (simp add: transfer_def)
qed

text \<open>
  Claim C4, as the code has it. When one of the four checks of a transfer fails with
  \<^verbatim>\<open>is_valid_card_number\<close> returning a boolean, \<^verbatim>\<open>__do_transfer\<close> ends with a
  \<^verbatim>\<open>TransactionError\<close>, which it catches: the table and the card object are what they
  were, and the whole state of the command loop is unchanged, so the loop is still
  running. When \<^verbatim>\<open>is_valid_card_number\<close> raises on the number typed, the table and the
  card object are unchanged too, but the exception is not caught: it ends the loop.
\<close>
theorem failed_transfer_changes_nothing:
  assumes "logged_in st = Some self"
  shows "(line1 inp = number self
       \<or> is_valid_card_number (line1 inp) = Inr False
       \<or> (is_valid_card_number (line1 inp) = Inr True
           \<and> check_card (database st) (line1 inp) None = None)
       \<or> (is_valid_card_number (line1 inp) = Inr True
           \<and> check_card (database st) (line1 inp) None = Some dest
           \<and> amount inp = Some m \<and> m > balance self)
       \<longrightarrow> (\<exists>msg. do_transfer (database st) self (line1 inp) (amount inp)
                    = (TransactionError msg, database st, self))
           \<and> transfer inp self st = st)
     \<and> (line1 inp \<noteq> number self \<and> is_valid_card_number (line1 inp) = Inl e
       \<longrightarrow> do_transfer (database st) self (line1 inp) (amount inp)
              = (Uncaught e, database st, self)
           \<and> transfer inp self st = st\<lparr>running := False, uncaught := Some e\<rparr>)"
proof (intro conjI impI)
  assume a: "line1 inp = number self
       \<or> is_valid_card_number (line1 inp) = Inr False
       \<or> (is_valid_card_number (line1 inp) = Inr True
           \<and> check_card (database st) (line1 inp) None = None)
       \<or> (is_valid_card_number (line1 inp) = Inr True
           \<and> check_card (database st) (line1 inp) None = Some dest
           \<and> amount inp = Some m \<and> m > balance self)"
  have "\<exists>msg. do_transfer (database st) self (line1 inp) (amount inp)
                 = (TransactionError msg, database st, self)"
  proof (cases "line1 inp = number self")
    case True
    then show ?thesis
      using do_transfer_self [of "database st" self "amount inp"]
      by (simp add: SelfTransferError_def)
  next
    case False
    from a False consider
        (invalid) "is_valid_card_number (line1 inp) = Inr False"
      | (unknown) "is_valid_card_number (line1 inp) = Inr True"
                  "check_card (database st) (line1 inp) None = None"
      | (funds) "is_valid_card_number (line1 inp) = Inr True"
                "check_card (database st) (line1 inp) None = Some dest"
                "amount inp = Some m" "m > balance self"
      by (elim disjE) auto
    then show ?thesis
    proof cases
      case invalid
      then show ?thesis
        using do_transfer_invalid [OF False] by (simp add: InvalidIdentifierError_def)
    next
      case unknown
      then show ?thesis
        using do_transfer_unknown [OF False] by (simp add: UnknownAccountError_def)
    next
      case funds
      then show ?thesis
        using do_transfer_insufficient [OF False funds(1,2,4)]
        by (simp add: InsufficientFundsError_def)
    qed
  qed
  then show "\<exists>msg. do_transfer (database st) self (line1 inp) (amount inp)
                 = (TransactionError msg, database st, self)" .
  then show "transfer inp self st = st" using transfer_caught [OF _ assms] by blast
next
  assume b: "line1 inp \<noteq> number self \<and> is_valid_card_number (line1 inp) = Inl e"
  then show u: "do_transfer (database st) self (line1 inp) (amount inp)
      = (Uncaught e, database st, self)"
    by (simp add: do_transfer_raises)
  show "transfer inp self st = st\<lparr>running := False, uncaught := Some e\<rparr>"
    using transfer_uncaught [OF u assms] by (simp add: crash_def)
qed


lemma do_transfer_Done:
  assumes "do_transfer db self num money = (Done, db2, self1)"
  shows "\<exists>m d s. money = Some m \<and> num \<noteq> number self \<and> is_valid_card_number num = Inr True
      \<and> select_by_number db num = Some d \<and> select_by_number db (number self) = Some s
      \<and> m \<le> balance self \<and> int64 (- m) \<and> int64 m
      \<and> \<not> overflows db (number self) (- m) \<and> \<not> overflows db num m
      \<and> db2 = map (\<lambda>r. if row_number r = num then r\<lparr>row_balance := row_balance r + m\<rparr> else r)
          (map (\<lambda>r. if row_number r = number self then r\<lparr>row_balance := row_balance r + - m\<rparr> else r) db)"
proof -
  have ne: "num \<noteq> number self"
    using assms by (auto simp: do_transfer_def SelfTransferError_def)
  have v: "is_valid_card_number num = Inr True"
    using assms ne by (auto simp: do_transfer_def InvalidIdentifierError_def split: sum.splits if_splits)
  obtain dest where c: "check_card db num None = Some dest"
    using assms ne v by (auto simp: do_transfer_def UnknownAccountError_def split: option.splits)
  then obtain d where d: "select_by_number db num = Some d"
    and dest: "dest = \<lparr>number = row_number d, code = row_pin d, balance = row_balance d\<rparr>"
    by (auto simp: check_card_None)
  have dn: "row_number d = num" using d by (rule select_by_number_number)
  obtain m where m: "money = Some m"
    using assms ne v c by (auto simp: do_transfer_def split: option.splits)
  have le: "m \<le> balance self"
    using assms ne v c m by (auto simp: do_transfer_def InsufficientFundsError_def split: if_splits)
  obtain db1 self0 where u1: "update_balance db self (- m) = Inr (db1, self0)"
    using assms ne v c m le
    by (auto simp: do_transfer_def split: sum.splits failure.splits)
  obtain dest1 where u2: "update_balance db1 dest m = Inr (db2, dest1)"
    using assms ne v c m le u1
    by (auto simp: do_transfer_def split: sum.splits failure.splits)
  from update_balance_Inr [OF u1] obtain s where s: "select_by_number db (number self) = Some s"
    and i1: "int64 (- m)" and o1: "\<not> overflows db (number self) (- m)"
    and db1: "db1 = map (\<lambda>r. if row_number r = number self then r\<lparr>row_balance := row_balance r + - m\<rparr> else r) db"
    by blast
  from update_balance_Inr [OF u2] have i2: "int64 m" and o2': "\<not> overflows db1 (number dest) m"
    by blast+
  have o2: "\<not> overflows db num m"
    using o2' ne dn dest by (simp add: db1 overflows_map_other)
  show ?thesis
    using assms do_transfer_done [OF ne v d s le i1 i2 o1 o2] m ne v d s le i1 i2 o1 o2 by auto
qed

lemma round_trip_rows:
  "a \<noteq> b \<Longrightarrow>
   map (\<lambda>r. if row_number r = a then r\<lparr>row_balance := row_balance r + m\<rparr> else r)
     (map (\<lambda>r. if row_number r = b then r\<lparr>row_balance := row_balance r + - m\<rparr> else r)
       (map (\<lambda>r. if row_number r = b then r\<lparr>row_balance := row_balance r + m\<rparr> else r)
         (map (\<lambda>r. if row_number r = a then r\<lparr>row_balance := row_balance r + - m\<rparr> else r) db)))
   = db"
  by (induction db) auto

lemma no_overflow_back_dest:
  "list_all (\<lambda>r. int64 (row_balance r)) db \<Longrightarrow> a \<noteq> b \<Longrightarrow>
   \<not> overflows
      (map (\<lambda>r. if row_number r = b then r\<lparr>row_balance := row_balance r + m\<rparr> else r)
        (map (\<lambda>r. if row_number r = a then r\<lparr>row_balance := row_balance r + - m\<rparr> else r) db))
      b (- m)"
  unfolding overflows_def by (induction db) simp_all

lemma no_overflow_back_source:
  "list_all (\<lambda>r. int64 (row_balance r)) db \<Longrightarrow> a \<noteq> b \<Longrightarrow>
   \<not> overflows
      (map (\<lambda>r. if row_number r = b then r\<lparr>row_balance := row_balance r + m\<rparr> else r)
        (map (\<lambda>r. if row_number r = a then r\<lparr>row_balance := row_balance r + - m\<rparr> else r) db))
      a m"
  unfolding overflows_def by (induction db) simp_all

text \<open>
  Claim C6, as the code has it. In a table of 64-bit balances, let a transfer of \<open>m\<close>
  from card \<open>a\<close>, whose number \<^verbatim>\<open>is_valid_card_number\<close> accepts, to the number \<open>nb\<close>
  succeed, and let \<open>b0\<close> be the card that logging in to \<open>nb\<close> gave before that transfer.
  Logging in to \<open>nb\<close> after it gives the same card with \<open>m\<close> added to its balance. A
  transfer of \<open>m\<close> from that card back to the number of \<open>a\<close> succeeds when the balance of
  \<open>b0\<close> is not negative, and the table is then again what it was before the first
  transfer; when the balance of \<open>b0\<close> is negative it is rejected with
  InsufficientFundsError and the table stays as the first transfer left it.
\<close>
theorem transfer_round_trip:
  assumes "do_transfer db a nb (Some m) = (Done, db1, a1)"
    and "check_card db nb cod = Some b0"
    and "is_valid_card_number (number a) = Inr True"
    and "list_all (\<lambda>r. int64 (row_balance r)) db"
  shows "check_card db1 nb cod = Some (b0\<lparr>balance := balance b0 + m\<rparr>)
       \<and> (0 \<le> balance b0 \<longrightarrow>
            (\<exists>b2. do_transfer db1 (b0\<lparr>balance := balance b0 + m\<rparr>) (number a) (Some m)
                     = (Done, db, b2)))
       \<and> (balance b0 < 0 \<longrightarrow>
            do_transfer db1 (b0\<lparr>balance := balance b0 + m\<rparr>) (number a) (Some m)
              = (InsufficientFundsError, db1, b0\<lparr>balance := balance b0 + m\<rparr>))"
proof -
  let ?down = "\<lambda>r. if row_number r = number a then r\<lparr>row_balance := row_balance r + - m\<rparr> else r"
  let ?up = "\<lambda>r. if row_number r = nb then r\<lparr>row_balance := row_balance r + m\<rparr> else r"
  let ?b1 = "b0\<lparr>balance := balance b0 + m\<rparr>"
  from do_transfer_Done [OF assms(1)] obtain d s where
    ne: "nb \<noteq> number a" and d: "select_by_number db nb = Some d"
    and s: "select_by_number db (number a) = Some s"
    and i1: "int64 (- m)" and i2: "int64 m"
    and db1: "db1 = map ?up (map ?down db)"
    by auto
  have nb0: "number b0 = nb" using assms(2) by (simp add: check_card_stored)
  have ne': "number a \<noteq> number ?b1" using ne nb0 by simp
  have login: "check_card db1 nb cod = Some ?b1"
    using assms(2) ne nb0 by (simp only: db1 check_card_map) simp
  have sa: "select_by_number db1 (number a) = Some (?up (?down s))"
    using s by (simp only: db1 select_by_number_map option.map)
  have sb: "select_by_number db1 (number ?b1) = Some (?up (?down d))"
    using d nb0 by (simp only: db1 select_by_number_map option.map) simp
  have ob: "\<not> overflows db1 (number ?b1) (- m)"
    using no_overflow_back_dest [OF assms(4), of "number a" nb m] ne nb0 by (simp only: db1 Card.simps) simp
  have oa: "\<not> overflows db1 (number a) m"
    using no_overflow_back_source [OF assms(4), of "number a" nb m] ne by (simp only: db1) simp
  have c: "check_card db1 (number a) None \<noteq> None"
    using sa by (simp add: check_card_None)
  show ?thesis
  proof (intro conjI impI)
    show "check_card db1 nb cod = Some ?b1" by (rule login)
  next
    assume "0 \<le> balance b0"
    then have le: "m \<le> balance ?b1" by simp
    have rows: "map (\<lambda>r. if row_number r = number a then r\<lparr>row_balance := row_balance r + m\<rparr> else r)
        (map (\<lambda>r. if row_number r = number ?b1 then r\<lparr>row_balance := row_balance r + - m\<rparr> else r) db1)
        = db"
      using round_trip_rows [of "number a" nb m db] ne nb0 by (simp add: db1)
    have "do_transfer db1 ?b1 (number a) (Some m) =
        (Done, db, ?b1\<lparr>balance := row_balance (?up (?down d)) + - m\<rparr>)"
      using do_transfer_done [OF ne' assms(3) sa sb le i1 i2 ob oa] unfolding rows .
    then show "\<exists>b2. do_transfer db1 ?b1 (number a) (Some m) = (Done, db, b2)" by blast
  next
    assume "balance b0 < 0"
    then have gt: "m > balance ?b1" by simp
    from c obtain dest where "check_card db1 (number a) None = Some dest" by blast
    then show "do_transfer db1 ?b1 (number a) (Some m) = (InsufficientFundsError, db1, ?b1)"
      using do_transfer_insufficient [OF ne' assms(3) _ gt] by blast
  qed
qed

subsection \<open>Card numbers in the table\<close>

lemma row_number_map_update:
  "map row_number (map (\<lambda>r. if row_number r = n then r\<lparr>row_balance := row_balance r + m\<rparr> else r) db)
   = map row_number db"
  by (induction db) auto

lemma update_balance_numbers:
  "update_balance db self m = Inr (db1, self1) \<Longrightarrow> map row_number db1 = map row_number db"
  using update_balance_Inr [of db self m db1 self1] row_number_map_update [of "number self" m db]
  by auto

lemma do_transfer_numbers:
  "do_transfer db self num money = (out, db2, self1) \<Longrightarrow> map row_number db2 = map row_number db"
  unfolding do_transfer_def
  by (auto split: if_splits sum.splits option.splits prod.splits failure.splits
      dest!: update_balance_numbers)

lemma create_account_numbers:
  "map row_number (database (create_account inp st)) =
     (case create_card (draw_number inp) of
        Inl e \<Rightarrow> map row_number (database st)
      | Inr n \<Rightarrow> map row_number (database st) @ [n])"
  by (simp add: create_account_def init_card_def crash_def save_to_db_def Let_def split: sum.splits)

lemma add_income_numbers:
  "map row_number (database (add_income inp self st)) = map row_number (database st)"
  by (auto simp: add_income_def crash_def split: option.splits sum.splits prod.splits
      failure.splits dest: update_balance_numbers)

lemma transfer_numbers:
  "map row_number (database (transfer inp self st)) = map row_number (database st)"
proof -
  obtain out db2 self1 where
    d: "do_transfer (database st) self (line1 inp) (amount inp) = (out, db2, self1)"
    by (cases "do_transfer (database st) self (line1 inp) (amount inp)") auto
  have "map row_number db2 = map row_number (database st)"
    using d by (rule do_transfer_numbers)
  then show ?thesis
    using d by (cases out) (simp_all add: transfer_def crash_def)
qed




subsection \<open>The logged-in card is in the table\<close>

lemma update_balance_same_card:
  "update_balance db self m = Inr (db1, self1) \<Longrightarrow> number self1 = number self"
  using update_balance_Inr [of db self m db1 self1] by auto

lemma update_balance_stored:
  "update_balance db self m = Inr (db1, self1) \<Longrightarrow> select_by_number db (number self) \<noteq> None"
  using update_balance_Inr [of db self m db1 self1] by auto

lemma do_transfer_same_card:
  "do_transfer db self num money = (out, db2, self1) \<Longrightarrow> number self1 = number self"
  unfolding do_transfer_def
  by (auto split: if_splits sum.splits option.splits prod.splits failure.splits
      dest: update_balance_same_card)

lemma step_logged_in_stored:
  assumes "\<forall>c. logged_in st = Some c \<longrightarrow> select_by_number (database st) (number c) \<noteq> None"
  shows "\<forall>c. logged_in (step inp st) = Some c \<longrightarrow>
           select_by_number (database (step inp st)) (number c) \<noteq> None"
proof (cases "command inp")
  case None
  then show ?thesis using assms by (simp add: step_def crash_def)
next
  case (Some k)
  show ?thesis
  proof (cases "logged_in st")
    case None
    then show ?thesis
      using Some
      by (auto simp: step_def create_account_def crash_def login_def exit_program_def
          split: sum.splits dest: check_card_stored)
  next
    case (Some self)
    have s: "number self \<in> set (map row_number (database st))"
      using assms Some by (simp add: select_by_number_None_iff)
    have inc: "\<forall>c. logged_in (add_income inp self st) = Some c \<longrightarrow>
        select_by_number (database (add_income inp self st)) (number c) \<noteq> None"
    proof (intro allI impI)
      fix c assume c: "logged_in (add_income inp self st) = Some c"
      have "number c = number self"
        using c Some
        by (auto simp: add_income_def crash_def split: option.splits sum.splits failure.splits
            dest: update_balance_same_card)
      then show "select_by_number (database (add_income inp self st)) (number c) \<noteq> None"
        using s by (simp add: select_by_number_None_iff add_income_numbers)
    qed
    have tr: "\<forall>c. logged_in (transfer inp self st) = Some c \<longrightarrow>
        select_by_number (database (transfer inp self st)) (number c) \<noteq> None"
    proof (intro allI impI)
      fix c assume c: "logged_in (transfer inp self st) = Some c"
      obtain out db2 self1 where
        d: "do_transfer (database st) self (line1 inp) (amount inp) = (out, db2, self1)"
        by (cases "do_transfer (database st) self (line1 inp) (amount inp)") auto
      have "c = self1" using c d by (cases out) (simp_all add: transfer_def crash_def)
      then have "number c = number self" using d by (simp add: do_transfer_same_card)
      then show "select_by_number (database (transfer inp self st)) (number c) \<noteq> None"
        using s by (simp add: select_by_number_None_iff transfer_numbers)
    qed
    show ?thesis
      using assms \<open>command inp = Some k\<close> Some inc tr
      by (simp add: step_def close_account_def logout_def exit_program_def crash_def)
  qed
qed

lemma start_logged_in_stored:
  "\<forall>c. logged_in st = Some c \<longrightarrow> select_by_number (database st) (number c) \<noteq> None \<Longrightarrow>
   \<forall>c. logged_in (start inps st) = Some c \<longrightarrow>
     select_by_number (database (start inps st)) (number c) \<noteq> None"
proof (induction inps arbitrary: st)
  case Nil
  then show ?case by simp
next
  case (Cons inp inps)
  show ?case
  proof (cases "running st \<and> \<not> inexact st")
    case True
    have "\<forall>c. logged_in (step inp st) = Some c \<longrightarrow>
        select_by_number (database (step inp st)) (number c) \<noteq> None"
      using Cons.prems by (rule step_logged_in_stored)
    then show ?thesis using Cons.IH True by simp
  next
    case False
    then show ?thesis using Cons.prems by auto
  qed
qed

lemma step_numbers_subset:
  assumes "n \<in> set (map row_number (database (step inp st)))"
  shows "n \<in> set (map row_number (database st)) \<or> create_card (draw_number inp) = Inr n"
proof (cases "command inp")
  case None
  then show ?thesis using assms by (simp add: step_def crash_def)
next
  case (Some c)
  show ?thesis
  proof (cases "logged_in st")
    case None
    have "n \<in> set (map row_number (database st)) \<or> create_card (draw_number inp) = Inr n"
      if "n \<in> set (map row_number (database (create_account inp st)))"
      using that by (cases "create_card (draw_number inp)") (auto simp: create_account_numbers)
    then show ?thesis
      using assms Some None
      by (auto simp: step_def login_def exit_program_def crash_def split: if_splits)
  next
    case (Some self)
    have inc: "row_number ` set (database (add_income inp self st)) = row_number ` set (database st)"
      using add_income_numbers [of inp self st] by (metis set_map)
    have tr: "row_number ` set (database (transfer inp self st)) = row_number ` set (database st)"
      using transfer_numbers [of inp self st] by (metis set_map)
    have cl: "row_number ` set (database (close_account self st)) \<subseteq> row_number ` set (database st)"
      by (auto simp: close_account_def delete_card_def)
    have "set (map row_number (database (step inp st))) \<subseteq> set (map row_number (database st))"
      using \<open>command inp = Some c\<close> Some inc tr cl
      by (simp add: step_def logout_def exit_program_def crash_def)
    then show ?thesis using assms by blast
  qed
qed

lemma start_numbers_valid:
  "list_all (\<lambda>inp. draw_number inp \<in> randint 1 999999999) inps \<Longrightarrow>
   list_all (\<lambda>r. is_valid_card_number (row_number r) = Inr True) (database st) \<Longrightarrow>
   list_all (\<lambda>r. is_valid_card_number (row_number r) = Inr True) (database (start inps st))"
proof (induction inps arbitrary: st)
  case Nil
  then show ?case by simp
next
  case (Cons inp inps)
  show ?case
  proof (cases "running st \<and> \<not> inexact st")
    case True
    have r: "draw_number inp \<in> randint 1 999999999" using Cons.prems(1) by simp
    have "list_all (\<lambda>r. is_valid_card_number (row_number r) = Inr True) (database (step inp st))"
      unfolding list_all_iff
    proof
      fix x assume "x \<in> set (database (step inp st))"
      then have "row_number x \<in> set (map row_number (database (step inp st)))" by simp
      then have "row_number x \<in> set (map row_number (database st))
          \<or> create_card (draw_number inp) = Inr (row_number x)"
        by (rule step_numbers_subset)
      then show "is_valid_card_number (row_number x) = Inr True"
        using Cons.prems(2) create_card_valid [OF r] by (auto simp: list_all_iff)
    qed
    then show ?thesis using Cons.IH Cons.prems(1) True by simp
  next
    case False
    then show ?thesis using Cons.prems(2) by auto
  qed
qed

lemma update_balance_int64:
  assumes "update_balance db self m = Inr (db1, self1)"
    and "list_all (\<lambda>r. int64 (row_balance r)) db"
  shows "list_all (\<lambda>r. int64 (row_balance r)) db1"
proof -
  from update_balance_Inr [OF assms(1)] have o: "\<not> overflows db (number self) m"
    and db1: "db1 = map (\<lambda>r. if row_number r = number self then r\<lparr>row_balance := row_balance r + m\<rparr> else r) db"
    by blast+
  show ?thesis
    using o assms(2) unfolding db1 overflows_def by (induction db) simp_all
qed

lemma do_transfer_int64:
  "do_transfer db self num money = (out, db2, self1) \<Longrightarrow>
   list_all (\<lambda>r. int64 (row_balance r)) db \<Longrightarrow> list_all (\<lambda>r. int64 (row_balance r)) db2"
  unfolding do_transfer_def
  by (auto split: if_splits sum.splits option.splits prod.splits failure.splits
      dest: update_balance_int64)

lemma step_int64:
  assumes "list_all (\<lambda>r. int64 (row_balance r)) (database st)"
  shows "list_all (\<lambda>r. int64 (row_balance r)) (database (step inp st))"
proof (cases "command inp")
  case None
  then show ?thesis using assms by (simp add: step_def crash_def)
next
  case (Some c)
  show ?thesis
  proof (cases "logged_in st")
    case None
    have "list_all (\<lambda>r. int64 (row_balance r)) (database (create_account inp st))"
      using assms
      by (simp add: create_account_def init_card_def crash_def save_to_db_def Let_def int64_def
          split: sum.splits)
    then show ?thesis
      using assms Some None by (simp add: step_def login_def exit_program_def crash_def)
  next
    case (Some self)
    have inc: "list_all (\<lambda>r. int64 (row_balance r)) (database (add_income inp self st))"
      using assms
      by (auto simp: add_income_def crash_def split: option.splits sum.splits failure.splits
          dest: update_balance_int64)
    have tr: "list_all (\<lambda>r. int64 (row_balance r)) (database (transfer inp self st))"
    proof -
      obtain out db2 self1 where
        d: "do_transfer (database st) self (line1 inp) (amount inp) = (out, db2, self1)"
        by (cases "do_transfer (database st) self (line1 inp) (amount inp)") auto
      have "list_all (\<lambda>r. int64 (row_balance r)) db2"
        using d assms by (rule do_transfer_int64)
      then show ?thesis using d by (cases out) (simp_all add: transfer_def crash_def)
    qed
    have cl: "list_all (\<lambda>r. int64 (row_balance r)) (database (close_account self st))"
      using assms by (simp add: close_account_def delete_card_def list_all_iff)
    show ?thesis
      using assms \<open>command inp = Some c\<close> Some inc tr cl
      by (simp add: step_def logout_def exit_program_def crash_def)
  qed
qed

lemma start_int64:
  "list_all (\<lambda>r. int64 (row_balance r)) (database st) \<Longrightarrow>
   list_all (\<lambda>r. int64 (row_balance r)) (database (start inps st))"
proof (induction inps arbitrary: st)
  case Nil
  then show ?case by simp
next
  case (Cons inp inps)
  then show ?case using step_int64 [of st inp] by auto
qed

subsection \<open>Concrete runs\<close>

lemma create_card_1: "create_card 1 = Inr ''4000000000000010''"
  by code_simp

lemma create_card_2: "create_card 2 = Inr ''4000000000000028''"
  by code_simp

lemma create_code_1: "create_code 1 = ''0001''"
  by code_simp

lemma create_code_2: "create_code 2 = ''0002''"
  by code_simp

lemma valid_10: "is_valid_card_number ''4000000000000010'' = Inr True"
  by code_simp

lemma valid_28: "is_valid_card_number ''4000000000000028'' = Inr True"
  by code_simp

lemma valid_36: "is_valid_card_number ''4000000000000036'' = Inr True"
  by code_simp

lemma invalid_11: "is_valid_card_number ''4000000000000011'' = Inr False"
  by code_simp

lemma raises_abc: "is_valid_card_number ''abc'' = Inl ValueError"
  by code_simp

lemma raises_empty: "is_valid_card_number [] = Inl IndexError"
  by code_simp

lemmas run_defs = step_def turn_def main_state_def create_account_def init_card_def
  save_to_db_def next_id_def login_def logout_def add_income_def transfer_def close_account_def
  exit_program_def crash_def check_card_def select_by_number_def select_by_number_pin_def
  update_balance_def delete_card_def do_transfer_def int64_def overflows_def



text \<open>Two accounts are created, the second is given an income of \<open>-5\<close> and the first
  an income of 10. The first then transfers 10 to the second, which succeeds; the second,
  logged in again, transfers 10 back, which is rejected: the balances stay 0 and 5 and
  are not the 10 and \<open>-5\<close> they were.\<close>

theorem return_transfer_rejected:
  "database (start
     [turn 1, (turn 1)\<lparr>draw_number := 2, draw_code := 2\<rparr>,
      (turn 2)\<lparr>line1 := ''4000000000000028'', line2 := ''0002''\<rparr>,
      (turn 2)\<lparr>amount := Some (- 5)\<rparr>, turn 5,
      (turn 2)\<lparr>line1 := ''4000000000000010'', line2 := ''0001''\<rparr>,
      (turn 2)\<lparr>amount := Some 10\<rparr>] main_state)
   = [\<lparr>row_id = 1, row_number = ''4000000000000010'', row_pin = ''0001'', row_balance = 10\<rparr>,
      \<lparr>row_id = 2, row_number = ''4000000000000028'', row_pin = ''0002'', row_balance = - 5\<rparr>]
   \<and> do_transfer
       [\<lparr>row_id = 1, row_number = ''4000000000000010'', row_pin = ''0001'', row_balance = 10\<rparr>,
      \<lparr>row_id = 2, row_number = ''4000000000000028'', row_pin = ''0002'', row_balance = - 5\<rparr>]
       \<lparr>number = ''4000000000000010'', code = ''0001'', balance = 10\<rparr>
       ''4000000000000028'' (Some 10)
     = (Done,
        [\<lparr>row_id = 1, row_number = ''4000000000000010'', row_pin = ''0001'', row_balance = 0\<rparr>,
      \<lparr>row_id = 2, row_number = ''4000000000000028'', row_pin = ''0002'', row_balance = 5\<rparr>],
        \<lparr>number = ''4000000000000010'', code = ''0001'', balance = 0\<rparr>)
   \<and> check_card
       [\<lparr>row_id = 1, row_number = ''4000000000000010'', row_pin = ''0001'', row_balance = 0\<rparr>,
      \<lparr>row_id = 2, row_number = ''4000000000000028'', row_pin = ''0002'', row_balance = 5\<rparr>]
       ''4000000000000028'' (Some ''0002'')
     = Some \<lparr>number = ''4000000000000028'', code = ''0002'', balance = 5\<rparr>
   \<and> do_transfer
       [\<lparr>row_id = 1, row_number = ''4000000000000010'', row_pin = ''0001'', row_balance = 0\<rparr>,
      \<lparr>row_id = 2, row_number = ''4000000000000028'', row_pin = ''0002'', row_balance = 5\<rparr>]
       \<lparr>number = ''4000000000000028'', code = ''0002'', balance = 5\<rparr>
       ''4000000000000010'' (Some 10)
     = (InsufficientFundsError,
        [\<lparr>row_id = 1, row_number = ''4000000000000010'', row_pin = ''0001'', row_balance = 0\<rparr>,
      \<lparr>row_id = 2, row_number = ''4000000000000028'', row_pin = ''0002'', row_balance = 5\<rparr>],
        \<lparr>number = ''4000000000000028'', code = ''0002'', balance = 5\<rparr>)"
  by (simp add: run_defs create_card_1 create_card_2 create_code_1 create_code_2 valid_10 valid_28)

theorem update_balance_rereads_witness:
  "select_by_number
     [\<lparr>row_id = 1, row_number = ''4000000000000010'', row_pin = ''0001'', row_balance = 60\<rparr>]
     (number \<lparr>number = ''4000000000000010'', code = ''0001'', balance = 0\<rparr>)
   = Some \<lparr>row_id = 1, row_number = ''4000000000000010'', row_pin = ''0001'', row_balance = 60\<rparr>
   \<and> int64 (- 25)
   \<and> \<not> overflows [\<lparr>row_id = 1, row_number = ''4000000000000010'', row_pin = ''0001'', row_balance = 60\<rparr>] (number \<lparr>number = ''4000000000000010'', code = ''0001'', balance = 0\<rparr>) (- 25)
   \<and> update_balance
       [\<lparr>row_id = 1, row_number = ''4000000000000010'', row_pin = ''0001'', row_balance = 60\<rparr>]
       \<lparr>number = ''4000000000000010'', code = ''0001'', balance = 0\<rparr> (- 25)
     = Inr ([\<lparr>row_id = 1, row_number = ''4000000000000010'', row_pin = ''0001'', row_balance = 35\<rparr>],
            \<lparr>number = ''4000000000000010'', code = ''0001'', balance = 35\<rparr>)"
proof -
  let ?db = "[\<lparr>row_id = 1, row_number = ''4000000000000010'', row_pin = ''0001'', row_balance = 60\<rparr>]"
  let ?c = "\<lparr>number = ''4000000000000010'', code = ''0001'', balance = 0\<rparr>"
  have h: "select_by_number ?db (number ?c) = Some \<lparr>row_id = 1, row_number = ''4000000000000010'', row_pin = ''0001'', row_balance = 60\<rparr>"
    by (simp add: select_by_number_def)
  have i: "int64 (- 25)" by (simp add: int64_def)
  have o: "\<not> overflows ?db (number ?c) (- 25)" by (simp add: overflows_def int64_def)
  from update_balance_rereads [OF h, of "- 25"] i o obtain db1 self1 r1 where
    u: "update_balance ?db ?c (- 25) = Inr (db1, self1)"
    and s: "select_by_number db1 (number ?c) = Some r1"
    and b: "row_balance r1 = 60 + - 25" "balance self1 = row_balance r1"
    by auto
  have "update_balance ?db ?c (- 25) = Inr ([\<lparr>row_id = 1, row_number = ''4000000000000010'', row_pin = ''0001'', row_balance = 35\<rparr>], \<lparr>number = ''4000000000000010'', code = ''0001'', balance = 35\<rparr>)"
    using u s b by (simp add: update_balance_def select_by_number_def int64_def overflows_def)
  with h i o show ?thesis by simp
qed

text \<open>An amount of \<open>2^63\<close> is refused with OverflowError, and adding 2 to a stored
  balance of \<open>2^63 - 1\<close> stores a floating-point value: in neither case is the stored
  balance the old one plus the amount.\<close>

theorem update_balance_out_of_range:
  "select_by_number
     [\<lparr>row_id = 1, row_number = ''4000000000000010'', row_pin = ''0001'', row_balance = 2 ^ 63 - 1\<rparr>]
     (number \<lparr>number = ''4000000000000010'', code = ''0001'', balance = 0\<rparr>)
   = Some \<lparr>row_id = 1, row_number = ''4000000000000010'', row_pin = ''0001'', row_balance = 2 ^ 63 - 1\<rparr>
   \<and> update_balance
       [\<lparr>row_id = 1, row_number = ''4000000000000010'', row_pin = ''0001'', row_balance = 2 ^ 63 - 1\<rparr>]
       \<lparr>number = ''4000000000000010'', code = ''0001'', balance = 0\<rparr> (2 ^ 63)
     = Inl (Raised OverflowError)
   \<and> update_balance
       [\<lparr>row_id = 1, row_number = ''4000000000000010'', row_pin = ''0001'', row_balance = 2 ^ 63 - 1\<rparr>]
       \<lparr>number = ''4000000000000010'', code = ''0001'', balance = 0\<rparr> 2
     = Inl Real_stored"
  by (simp add: update_balance_def select_by_number_def int64_def overflows_def)

theorem do_transfer_checks_in_order_witness:
  "do_transfer
     [\<lparr>row_id = 1, row_number = ''4000000000000010'', row_pin = ''0001'', row_balance = 100\<rparr>,
      \<lparr>row_id = 2, row_number = ''4000000000000028'', row_pin = ''0002'', row_balance = 0\<rparr>]
     \<lparr>number = ''4000000000000010'', code = ''0001'', balance = 100\<rparr> ''4000000000000010'' (Some 10)
   = (SelfTransferError,
     [\<lparr>row_id = 1, row_number = ''4000000000000010'', row_pin = ''0001'', row_balance = 100\<rparr>,
      \<lparr>row_id = 2, row_number = ''4000000000000028'', row_pin = ''0002'', row_balance = 0\<rparr>],
     \<lparr>number = ''4000000000000010'', code = ''0001'', balance = 100\<rparr>)
   \<and> do_transfer
     [\<lparr>row_id = 1, row_number = ''4000000000000010'', row_pin = ''0001'', row_balance = 100\<rparr>,
      \<lparr>row_id = 2, row_number = ''4000000000000028'', row_pin = ''0002'', row_balance = 0\<rparr>]
     \<lparr>number = ''4000000000000010'', code = ''0001'', balance = 100\<rparr> ''4000000000000011'' (Some 10)
   = (InvalidIdentifierError,
     [\<lparr>row_id = 1, row_number = ''4000000000000010'', row_pin = ''0001'', row_balance = 100\<rparr>,
      \<lparr>row_id = 2, row_number = ''4000000000000028'', row_pin = ''0002'', row_balance = 0\<rparr>],
     \<lparr>number = ''4000000000000010'', code = ''0001'', balance = 100\<rparr>)
   \<and> do_transfer
     [\<lparr>row_id = 1, row_number = ''4000000000000010'', row_pin = ''0001'', row_balance = 100\<rparr>,
      \<lparr>row_id = 2, row_number = ''4000000000000028'', row_pin = ''0002'', row_balance = 0\<rparr>]
     \<lparr>number = ''4000000000000010'', code = ''0001'', balance = 100\<rparr> ''abc'' (Some 10)
   = (Uncaught ValueError,
     [\<lparr>row_id = 1, row_number = ''4000000000000010'', row_pin = ''0001'', row_balance = 100\<rparr>,
      \<lparr>row_id = 2, row_number = ''4000000000000028'', row_pin = ''0002'', row_balance = 0\<rparr>],
     \<lparr>number = ''4000000000000010'', code = ''0001'', balance = 100\<rparr>)
   \<and> do_transfer
     [\<lparr>row_id = 1, row_number = ''4000000000000010'', row_pin = ''0001'', row_balance = 100\<rparr>,
      \<lparr>row_id = 2, row_number = ''4000000000000028'', row_pin = ''0002'', row_balance = 0\<rparr>]
     \<lparr>number = ''4000000000000010'', code = ''0001'', balance = 100\<rparr> ''4000000000000036'' (Some 10)
   = (UnknownAccountError,
     [\<lparr>row_id = 1, row_number = ''4000000000000010'', row_pin = ''0001'', row_balance = 100\<rparr>,
      \<lparr>row_id = 2, row_number = ''4000000000000028'', row_pin = ''0002'', row_balance = 0\<rparr>],
     \<lparr>number = ''4000000000000010'', code = ''0001'', balance = 100\<rparr>)
   \<and> do_transfer
     [\<lparr>row_id = 1, row_number = ''4000000000000010'', row_pin = ''0001'', row_balance = 100\<rparr>,
      \<lparr>row_id = 2, row_number = ''4000000000000028'', row_pin = ''0002'', row_balance = 0\<rparr>]
     \<lparr>number = ''4000000000000010'', code = ''0001'', balance = 100\<rparr> ''4000000000000028'' (Some 1000)
   = (InsufficientFundsError,
     [\<lparr>row_id = 1, row_number = ''4000000000000010'', row_pin = ''0001'', row_balance = 100\<rparr>,
      \<lparr>row_id = 2, row_number = ''4000000000000028'', row_pin = ''0002'', row_balance = 0\<rparr>],
     \<lparr>number = ''4000000000000010'', code = ''0001'', balance = 100\<rparr>)
   \<and> do_transfer
     [\<lparr>row_id = 1, row_number = ''4000000000000010'', row_pin = ''0001'', row_balance = 100\<rparr>,
      \<lparr>row_id = 2, row_number = ''4000000000000028'', row_pin = ''0002'', row_balance = 0\<rparr>]
     \<lparr>number = ''4000000000000010'', code = ''0001'', balance = 100\<rparr> ''4000000000000028'' (Some (- (2 ^ 63)))
   = (Uncaught OverflowError,
     [\<lparr>row_id = 1, row_number = ''4000000000000010'', row_pin = ''0001'', row_balance = 100\<rparr>,
      \<lparr>row_id = 2, row_number = ''4000000000000028'', row_pin = ''0002'', row_balance = 0\<rparr>],
     \<lparr>number = ''4000000000000010'', code = ''0001'', balance = 100\<rparr>)
   \<and> do_transfer
     [\<lparr>row_id = 1, row_number = ''4000000000000010'', row_pin = ''0001'', row_balance = 100\<rparr>,
      \<lparr>row_id = 2, row_number = ''4000000000000028'', row_pin = ''0002'', row_balance = 0\<rparr>]
     \<lparr>number = ''4000000000000010'', code = ''0001'', balance = 100\<rparr> ''4000000000000028'' (Some 40)
   = (Done,
     [\<lparr>row_id = 1, row_number = ''4000000000000010'', row_pin = ''0001'', row_balance = 60\<rparr>,
      \<lparr>row_id = 2, row_number = ''4000000000000028'', row_pin = ''0002'', row_balance = 40\<rparr>],
     \<lparr>number = ''4000000000000010'', code = ''0001'', balance = 60\<rparr>)"
proof -
  let ?db = "[\<lparr>row_id = 1, row_number = ''4000000000000010'', row_pin = ''0001'', row_balance = 100\<rparr>,
      \<lparr>row_id = 2, row_number = ''4000000000000028'', row_pin = ''0002'', row_balance = 0\<rparr>]"
  let ?a = "\<lparr>number = ''4000000000000010'', code = ''0001'', balance = 100\<rparr>"
  let ?b = "\<lparr>number = ''4000000000000028'', code = ''0002'', balance = 0\<rparr>"
  let ?s = "\<lparr>row_id = 1, row_number = ''4000000000000010'', row_pin = ''0001'', row_balance = 100\<rparr>"
  have n: "number ?a = ''4000000000000010''" by simp
  have c36: "check_card ?db ''4000000000000036'' None = None"
    by (simp add: check_card_def select_by_number_def)
  have c28: "check_card ?db ''4000000000000028'' None = Some ?b"
    by (simp add: check_card_def select_by_number_def)
  have s: "select_by_number ?db (number ?a) = Some ?s"
    by (simp add: select_by_number_def)
  have r: "int64 (- 40)" "int64 40" "\<not> int64 (- (- (2 ^ 63)))"
    "\<not> overflows ?db (number ?a) (- 40)" "\<not> overflows ?db ''4000000000000028'' 40"
    by (simp_all add: int64_def overflows_def)
  have 1: "do_transfer ?db ?a ''4000000000000010'' (Some 10) = (SelfTransferError, ?db, ?a)"
    using do_transfer_checks_in_order
      [of "''4000000000000010''" ?a ?db "Some 10" ValueError ?b 10 ?s] n
    by simp
  have 2: "do_transfer ?db ?a ''4000000000000011'' (Some 10) = (InvalidIdentifierError, ?db, ?a)"
    using do_transfer_checks_in_order
      [of "''4000000000000011''" ?a ?db "Some 10" ValueError ?b 10 ?s] invalid_11
    by simp
  have 3: "do_transfer ?db ?a ''abc'' (Some 10) = (Uncaught ValueError, ?db, ?a)"
    using do_transfer_checks_in_order
      [of "''abc''" ?a ?db "Some 10" ValueError ?b 10 ?s] raises_abc
    by simp
  have 4: "do_transfer ?db ?a ''4000000000000036'' (Some 10) = (UnknownAccountError, ?db, ?a)"
    using do_transfer_checks_in_order
      [of "''4000000000000036''" ?a ?db "Some 10" ValueError ?b 10 ?s] valid_36 c36
    by simp
  have 5: "do_transfer ?db ?a ''4000000000000028'' (Some 1000) = (InsufficientFundsError, ?db, ?a)"
    using do_transfer_checks_in_order
      [of "''4000000000000028''" ?a ?db "Some 1000" ValueError ?b 1000 ?s] valid_28 c28
    by simp
  have 6: "do_transfer ?db ?a ''4000000000000028'' (Some (- (2 ^ 63)))
      = (Uncaught OverflowError, ?db, ?a)"
    using do_transfer_checks_in_order
      [of "''4000000000000028''" ?a ?db "Some (- (2 ^ 63))" ValueError ?b "- (2 ^ 63)" ?s]
      valid_28 c28 r(3)
    by simp
  have "\<exists>db1 self1 db2 dest1.
           update_balance ?db ?a (- 40) = Inr (db1, self1)
         \<and> update_balance db1 ?b 40 = Inr (db2, dest1)
         \<and> do_transfer ?db ?a ''4000000000000028'' (Some 40) = (Done, db2, self1)"
    using do_transfer_checks_in_order
      [of "''4000000000000028''" ?a ?db "Some 40" ValueError ?b 40 ?s] valid_28 c28 s r
    by simp
  then have 7: "do_transfer ?db ?a ''4000000000000028'' (Some 40) = (Done, [\<lparr>row_id = 1, row_number = ''4000000000000010'', row_pin = ''0001'', row_balance = 60\<rparr>,
      \<lparr>row_id = 2, row_number = ''4000000000000028'', row_pin = ''0002'', row_balance = 40\<rparr>], \<lparr>number = ''4000000000000010'', code = ''0001'', balance = 60\<rparr>)"
    by (auto simp: update_balance_def select_by_number_def int64_def overflows_def)
  show ?thesis using 1 2 3 4 5 6 7 by blast
qed

text \<open>A destination with a letter in it, and the empty line: the second check raises, and
  the exception is not a \<^verbatim>\<open>TransactionError\<close>.\<close>

theorem malformed_destination_uncaught:
  "''abc'' \<noteq> number \<lparr>number = ''4000000000000010'', code = ''0001'', balance = 100\<rparr>
   \<and> is_valid_card_number ''abc'' = Inl ValueError
   \<and> do_transfer
       [\<lparr>row_id = 1, row_number = ''4000000000000010'', row_pin = ''0001'', row_balance = 100\<rparr>,
      \<lparr>row_id = 2, row_number = ''4000000000000028'', row_pin = ''0002'', row_balance = 0\<rparr>]
       \<lparr>number = ''4000000000000010'', code = ''0001'', balance = 100\<rparr> ''abc'' (Some 10)
     = (Uncaught ValueError,
       [\<lparr>row_id = 1, row_number = ''4000000000000010'', row_pin = ''0001'', row_balance = 100\<rparr>,
      \<lparr>row_id = 2, row_number = ''4000000000000028'', row_pin = ''0002'', row_balance = 0\<rparr>],
       \<lparr>number = ''4000000000000010'', code = ''0001'', balance = 100\<rparr>)
   \<and> do_transfer
       [\<lparr>row_id = 1, row_number = ''4000000000000010'', row_pin = ''0001'', row_balance = 100\<rparr>,
      \<lparr>row_id = 2, row_number = ''4000000000000028'', row_pin = ''0002'', row_balance = 0\<rparr>]
       \<lparr>number = ''4000000000000010'', code = ''0001'', balance = 100\<rparr> [] (Some 10)
     = (Uncaught IndexError,
       [\<lparr>row_id = 1, row_number = ''4000000000000010'', row_pin = ''0001'', row_balance = 100\<rparr>,
      \<lparr>row_id = 2, row_number = ''4000000000000028'', row_pin = ''0002'', row_balance = 0\<rparr>],
       \<lparr>number = ''4000000000000010'', code = ''0001'', balance = 100\<rparr>)"
  by (simp add: do_transfer_def raises_abc raises_empty)

theorem failed_transfer_changes_nothing_witness:
  "logged_in \<lparr>database = [\<lparr>row_id = 1, row_number = ''4000000000000010'', row_pin = ''0001'', row_balance = 100\<rparr>,
      \<lparr>row_id = 2, row_number = ''4000000000000028'', row_pin = ''0002'', row_balance = 0\<rparr>],
      logged_in = Some \<lparr>number = ''4000000000000010'', code = ''0001'', balance = 100\<rparr>, running = True, uncaught = None, inexact = False\<rparr>
   = Some \<lparr>number = ''4000000000000010'', code = ''0001'', balance = 100\<rparr>
   \<and> step ((turn 3)\<lparr>line1 := ''4000000000000028'', amount := Some 1000\<rparr>)
       \<lparr>database = [\<lparr>row_id = 1, row_number = ''4000000000000010'', row_pin = ''0001'', row_balance = 100\<rparr>,
      \<lparr>row_id = 2, row_number = ''4000000000000028'', row_pin = ''0002'', row_balance = 0\<rparr>],
      logged_in = Some \<lparr>number = ''4000000000000010'', code = ''0001'', balance = 100\<rparr>, running = True, uncaught = None, inexact = False\<rparr>
     = \<lparr>database = [\<lparr>row_id = 1, row_number = ''4000000000000010'', row_pin = ''0001'', row_balance = 100\<rparr>,
      \<lparr>row_id = 2, row_number = ''4000000000000028'', row_pin = ''0002'', row_balance = 0\<rparr>],
      logged_in = Some \<lparr>number = ''4000000000000010'', code = ''0001'', balance = 100\<rparr>, running = True, uncaught = None, inexact = False\<rparr>
   \<and> is_valid_card_number (line1 ((turn 3)\<lparr>line1 := ''abc'', amount := Some 10\<rparr>))
     = Inl ValueError
   \<and> transfer ((turn 3)\<lparr>line1 := ''abc'', amount := Some 10\<rparr>) \<lparr>number = ''4000000000000010'', code = ''0001'', balance = 100\<rparr>
       \<lparr>database = [\<lparr>row_id = 1, row_number = ''4000000000000010'', row_pin = ''0001'', row_balance = 100\<rparr>,
      \<lparr>row_id = 2, row_number = ''4000000000000028'', row_pin = ''0002'', row_balance = 0\<rparr>],
      logged_in = Some \<lparr>number = ''4000000000000010'', code = ''0001'', balance = 100\<rparr>, running = True, uncaught = None, inexact = False\<rparr>
     = \<lparr>database = [\<lparr>row_id = 1, row_number = ''4000000000000010'', row_pin = ''0001'', row_balance = 100\<rparr>,
      \<lparr>row_id = 2, row_number = ''4000000000000028'', row_pin = ''0002'', row_balance = 0\<rparr>],
      logged_in = Some \<lparr>number = ''4000000000000010'', code = ''0001'', balance = 100\<rparr>, running = False, uncaught = Some ValueError, inexact = False\<rparr>"
proof -
  let ?st = "\<lparr>database = [\<lparr>row_id = 1, row_number = ''4000000000000010'', row_pin = ''0001'', row_balance = 100\<rparr>,
      \<lparr>row_id = 2, row_number = ''4000000000000028'', row_pin = ''0002'', row_balance = 0\<rparr>],
      logged_in = Some \<lparr>number = ''4000000000000010'', code = ''0001'', balance = 100\<rparr>, running = True, uncaught = None, inexact = False\<rparr>"
  let ?inp = "(turn 3)\<lparr>line1 := ''4000000000000028'', amount := Some 1000\<rparr>"
  let ?bad = "(turn 3)\<lparr>line1 := ''abc'', amount := Some 10\<rparr>"
  let ?a = "\<lparr>number = ''4000000000000010'', code = ''0001'', balance = 100\<rparr>"
  let ?b = "\<lparr>number = ''4000000000000028'', code = ''0002'', balance = 0\<rparr>"
  have l: "logged_in ?st = Some ?a" by simp
  have v: "is_valid_card_number (line1 ?inp) = Inr True" by (simp add: valid_28)
  have c: "check_card (database ?st) (line1 ?inp) None = Some ?b"
    by (simp add: check_card_def select_by_number_def)
  have m: "amount ?inp = Some 1000" by simp
  have g: "1000 > balance ?a" by simp
  have d: "line1 ?inp = number ?a
       \<or> is_valid_card_number (line1 ?inp) = Inr False
       \<or> (is_valid_card_number (line1 ?inp) = Inr True
           \<and> check_card (database ?st) (line1 ?inp) None = None)
       \<or> (is_valid_card_number (line1 ?inp) = Inr True
           \<and> check_card (database ?st) (line1 ?inp) None = Some ?b
           \<and> amount ?inp = Some 1000 \<and> 1000 > balance ?a)"
    using v c m g by blast
  have "transfer ?inp ?a ?st = ?st"
    using failed_transfer_changes_nothing [OF l, of ?inp ?b 1000 ValueError] d by blast
  then have 1: "step ?inp ?st = ?st" by (simp add: step_def turn_def)
  have e: "line1 ?bad \<noteq> number ?a \<and> is_valid_card_number (line1 ?bad) = Inl ValueError"
    by (simp add: raises_abc)
  have "transfer ?bad ?a ?st = ?st\<lparr>running := False, uncaught := Some ValueError\<rparr>"
    using failed_transfer_changes_nothing [OF l, of ?bad ?b 10 ValueError] e by blast
  then have 2: "transfer ?bad ?a ?st = \<lparr>database = [\<lparr>row_id = 1, row_number = ''4000000000000010'', row_pin = ''0001'', row_balance = 100\<rparr>,
      \<lparr>row_id = 2, row_number = ''4000000000000028'', row_pin = ''0002'', row_balance = 0\<rparr>],
      logged_in = Some \<lparr>number = ''4000000000000010'', code = ''0001'', balance = 100\<rparr>, running = False, uncaught = Some ValueError, inexact = False\<rparr>" by simp
  show ?thesis using l 1 e 2 by blast
qed

text \<open>A transfer to a destination with a letter in it ends the command loop with an
  uncaught ValueError.\<close>

theorem malformed_destination_ends_loop:
  "step ((turn 3)\<lparr>line1 := ''abc'', amount := Some 10\<rparr>)
     \<lparr>database = [\<lparr>row_id = 1, row_number = ''4000000000000010'', row_pin = ''0001'', row_balance = 100\<rparr>,
      \<lparr>row_id = 2, row_number = ''4000000000000028'', row_pin = ''0002'', row_balance = 0\<rparr>],
      logged_in = Some \<lparr>number = ''4000000000000010'', code = ''0001'', balance = 100\<rparr>, running = True, uncaught = None, inexact = False\<rparr>
   = \<lparr>database = [\<lparr>row_id = 1, row_number = ''4000000000000010'', row_pin = ''0001'', row_balance = 100\<rparr>,
      \<lparr>row_id = 2, row_number = ''4000000000000028'', row_pin = ''0002'', row_balance = 0\<rparr>],
      logged_in = Some \<lparr>number = ''4000000000000010'', code = ''0001'', balance = 100\<rparr>, running = False, uncaught = Some ValueError, inexact = False\<rparr>"
  by (simp add: step_def turn_def transfer_def do_transfer_def raises_abc crash_def)



theorem transfer_round_trip_witness:
  "do_transfer
     [\<lparr>row_id = 1, row_number = ''4000000000000010'', row_pin = ''0001'', row_balance = 100\<rparr>,
      \<lparr>row_id = 2, row_number = ''4000000000000028'', row_pin = ''0002'', row_balance = 0\<rparr>]
     \<lparr>number = ''4000000000000010'', code = ''0001'', balance = 100\<rparr> ''4000000000000028'' (Some 40)
   = (Done,
     [\<lparr>row_id = 1, row_number = ''4000000000000010'', row_pin = ''0001'', row_balance = 60\<rparr>,
      \<lparr>row_id = 2, row_number = ''4000000000000028'', row_pin = ''0002'', row_balance = 40\<rparr>],
     \<lparr>number = ''4000000000000010'', code = ''0001'', balance = 60\<rparr>)
   \<and> check_card
     [\<lparr>row_id = 1, row_number = ''4000000000000010'', row_pin = ''0001'', row_balance = 100\<rparr>,
      \<lparr>row_id = 2, row_number = ''4000000000000028'', row_pin = ''0002'', row_balance = 0\<rparr>]
     ''4000000000000028'' (Some ''0002'')
   = Some \<lparr>number = ''4000000000000028'', code = ''0002'', balance = 0\<rparr>
   \<and> check_card
     [\<lparr>row_id = 1, row_number = ''4000000000000010'', row_pin = ''0001'', row_balance = 60\<rparr>,
      \<lparr>row_id = 2, row_number = ''4000000000000028'', row_pin = ''0002'', row_balance = 40\<rparr>]
     ''4000000000000028'' (Some ''0002'')
   = Some \<lparr>number = ''4000000000000028'', code = ''0002'', balance = 40\<rparr>
   \<and> do_transfer
     [\<lparr>row_id = 1, row_number = ''4000000000000010'', row_pin = ''0001'', row_balance = 60\<rparr>,
      \<lparr>row_id = 2, row_number = ''4000000000000028'', row_pin = ''0002'', row_balance = 40\<rparr>]
     \<lparr>number = ''4000000000000028'', code = ''0002'', balance = 40\<rparr> ''4000000000000010'' (Some 40)
   = (Done,
     [\<lparr>row_id = 1, row_number = ''4000000000000010'', row_pin = ''0001'', row_balance = 100\<rparr>,
      \<lparr>row_id = 2, row_number = ''4000000000000028'', row_pin = ''0002'', row_balance = 0\<rparr>],
     \<lparr>number = ''4000000000000028'', code = ''0002'', balance = 0\<rparr>)"
proof -
  let ?db = "[\<lparr>row_id = 1, row_number = ''4000000000000010'', row_pin = ''0001'', row_balance = 100\<rparr>,
      \<lparr>row_id = 2, row_number = ''4000000000000028'', row_pin = ''0002'', row_balance = 0\<rparr>]"
  let ?db1 = "[\<lparr>row_id = 1, row_number = ''4000000000000010'', row_pin = ''0001'', row_balance = 60\<rparr>,
      \<lparr>row_id = 2, row_number = ''4000000000000028'', row_pin = ''0002'', row_balance = 40\<rparr>]"
  let ?a = "\<lparr>number = ''4000000000000010'', code = ''0001'', balance = 100\<rparr>"
  let ?b0 = "\<lparr>number = ''4000000000000028'', code = ''0002'', balance = 0\<rparr>"
  have t: "do_transfer ?db ?a ''4000000000000028'' (Some 40) = (Done, ?db1, \<lparr>number = ''4000000000000010'', code = ''0001'', balance = 60\<rparr>)"
    by (simp add: do_transfer_def valid_28 check_card_def select_by_number_def update_balance_def
        int64_def overflows_def)
  have l: "check_card ?db ''4000000000000028'' (Some ''0002'') = Some ?b0"
    by (simp add: check_card_def select_by_number_pin_def)
  have v: "is_valid_card_number (number ?a) = Inr True" by (simp add: valid_10)
  have k: "list_all (\<lambda>r. int64 (row_balance r)) ?db" by (simp add: int64_def)
  note r = transfer_round_trip [OF t l v k]
  have l1: "check_card ?db1 ''4000000000000028'' (Some ''0002'') = Some \<lparr>number = ''4000000000000028'', code = ''0002'', balance = 40\<rparr>"
    using r by simp
  from r obtain b2 where "do_transfer ?db1 \<lparr>number = ''4000000000000028'', code = ''0002'', balance = 40\<rparr> ''4000000000000010'' (Some 40) = (Done, ?db, b2)"
    by auto
  then have "do_transfer ?db1 \<lparr>number = ''4000000000000028'', code = ''0002'', balance = 40\<rparr> ''4000000000000010'' (Some 40) = (Done, ?db, ?b0)"
    by (auto simp: do_transfer_def valid_10 check_card_def select_by_number_def update_balance_def
        int64_def overflows_def)
  with t l l1 show ?thesis by blast
qed

end
